theory Spec2Isabelle
  imports Complex_Main
begin

section \<open>Numbers\<close>

text \<open>
  The geometry of \<^verbatim>\<open>CABS/utils.py\<close> runs on numpy arrays of IEEE binary64 numbers.
  Two views of these numbers are used below.

  \<^item> The \<^emph>\<open>exact\<close> view: a finite number is a real, every operation is exact, and the
    special values of the format (the infinities and NaN) are kept as values of
    their own (\<open>flt\<close>). Rounding, overflow, underflow and the sign of zero are not
    part of it. All of the frame, reconstruction and alignment code is modelled in
    this view, since \<^verbatim>\<open>sqrt\<close>, \<^verbatim>\<open>exp\<close> and the singular value decomposition have no
    executable binary64 semantics here.
  \<^item> The \<^emph>\<open>binary64\<close> view: every operation is followed by rounding to the nearest
    binary64 number, ties to even (\<open>b64\<close>). It is used for the one function whose
    arithmetic is rational, \<^verbatim>\<open>_calc_scatter_coef\<close>, where the exact and the rounded
    result differ at an endpoint.
\<close>

subsection \<open>Rounding to binary64\<close>

definition pow2 :: "int \<Rightarrow> real" where
  "pow2 e = (if 0 \<le> e then 2 ^ nat e else 1 / 2 ^ nat (- e))"

text \<open>The binary exponent of a number at least 1, by repeated halving.\<close>

fun expo_up :: "nat \<Rightarrow> real \<Rightarrow> int" where
  "expo_up 0 x = 0"
| "expo_up (Suc n) x = (if x < 2 then 0 else 1 + expo_up n (x / 2))"

text \<open>The binary exponent of a number below 1, by repeated doubling; the fuel stops
  at the exponent of the smallest normal number, below which the spacing is fixed.\<close>

fun expo_dn :: "nat \<Rightarrow> real \<Rightarrow> int" where
  "expo_dn 0 x = 0"
| "expo_dn (Suc n) x = (if 1 \<le> x then 0 else expo_dn n (2 * x) - 1)"

definition b64_exponent :: "real \<Rightarrow> int" where
  "b64_exponent x = (if 1 \<le> \<bar>x\<bar> then expo_up 1023 \<bar>x\<bar> else expo_dn 1022 \<bar>x\<bar>)"

definition round_half_even :: "real \<Rightarrow> int" where
  "round_half_even y =
     (let f = \<lfloor>y\<rfloor>; r = y - of_int f
      in if r < 1 / 2 then f else if 1 / 2 < r then f + 1 else if even f then f else f + 1)"

text \<open>
  \<open>b64 x\<close> is the binary64 number nearest to \<open>x\<close> (53 significant bits), for \<open>x\<close> of
  magnitude below \<open>2 ^ 1024\<close>; larger magnitudes, which round to an infinity, do not
  occur where it is used.
\<close>

definition b64 :: "real \<Rightarrow> real" where
  "b64 x = (let u = pow2 (b64_exponent x - 52) in of_int (round_half_even (x / u)) * u)"

subsection \<open>Exact arithmetic with the special values\<close>

datatype flt = Fin real | PInf | NInf | NaN

fun fneg :: "flt \<Rightarrow> flt" where
  "fneg (Fin a) = Fin (- a)"
| "fneg PInf = NInf"
| "fneg NInf = PInf"
| "fneg NaN = NaN"

fun fadd :: "flt \<Rightarrow> flt \<Rightarrow> flt" where
  "fadd (Fin a) (Fin b) = Fin (a + b)"
| "fadd NaN b = NaN"
| "fadd a NaN = NaN"
| "fadd PInf NInf = NaN"
| "fadd NInf PInf = NaN"
| "fadd PInf b = PInf"
| "fadd a PInf = PInf"
| "fadd NInf b = NInf"
| "fadd a NInf = NInf"

fun fmul :: "flt \<Rightarrow> flt \<Rightarrow> flt" where
  "fmul (Fin a) (Fin b) = Fin (a * b)"
| "fmul NaN b = NaN"
| "fmul a NaN = NaN"
| "fmul (Fin a) PInf = (if a = 0 then NaN else if 0 < a then PInf else NInf)"
| "fmul (Fin a) NInf = (if a = 0 then NaN else if 0 < a then NInf else PInf)"
| "fmul PInf (Fin b) = (if b = 0 then NaN else if 0 < b then PInf else NInf)"
| "fmul NInf (Fin b) = (if b = 0 then NaN else if 0 < b then NInf else PInf)"
| "fmul PInf PInf = PInf"
| "fmul PInf NInf = NInf"
| "fmul NInf PInf = NInf"
| "fmul NInf NInf = PInf"

text \<open>Division: \<open>0 / 0\<close> and \<open>inf / inf\<close> are NaN, a non-zero number over zero is an
  infinity (the zero taken as positive: the divisors of the program are norms).\<close>

fun fdiv :: "flt \<Rightarrow> flt \<Rightarrow> flt" where
  "fdiv (Fin a) (Fin b) =
     (if b = 0 then (if a = 0 then NaN else if 0 < a then PInf else NInf) else Fin (a / b))"
| "fdiv NaN b = NaN"
| "fdiv a NaN = NaN"
| "fdiv (Fin a) PInf = Fin 0"
| "fdiv (Fin a) NInf = Fin 0"
| "fdiv PInf (Fin b) = (if 0 \<le> b then PInf else NInf)"
| "fdiv NInf (Fin b) = (if 0 \<le> b then NInf else PInf)"
| "fdiv PInf PInf = NaN"
| "fdiv PInf NInf = NaN"
| "fdiv NInf PInf = NaN"
| "fdiv NInf NInf = NaN"

fun fsqrt :: "flt \<Rightarrow> flt" where
  "fsqrt (Fin a) = (if a < 0 then NaN else Fin (sqrt a))"
| "fsqrt PInf = PInf"
| "fsqrt NInf = NaN"
| "fsqrt NaN = NaN"

text \<open>\<^verbatim>\<open>np.sign\<close>: \<open>-1\<close>, \<open>0\<close> or \<open>1\<close>, and NaN for NaN.\<close>

fun np_sign :: "flt \<Rightarrow> flt" where
  "np_sign (Fin a) = Fin (sgn a)"
| "np_sign PInf = Fin 1"
| "np_sign NInf = Fin (- 1)"
| "np_sign NaN = NaN"

instantiation flt :: "{plus, minus, uminus, times, inverse}"
begin

definition plus_flt :: "flt \<Rightarrow> flt \<Rightarrow> flt" where
  "plus_flt a b = fadd a b"

definition minus_flt :: "flt \<Rightarrow> flt \<Rightarrow> flt" where
  "minus_flt a b = fadd a (fneg b)"

definition uminus_flt :: "flt \<Rightarrow> flt" where
  "uminus_flt a = fneg a"

definition times_flt :: "flt \<Rightarrow> flt \<Rightarrow> flt" where
  "times_flt a b = fmul a b"

definition divide_flt :: "flt \<Rightarrow> flt \<Rightarrow> flt" where
  "divide_flt a b = fdiv a b"

definition inverse_flt :: "flt \<Rightarrow> flt" where
  "inverse_flt a = fdiv (Fin 1) a"

instance ..

end

text \<open>
  Under \<^verbatim>\<open>np.seterr(all='raise')\<close> an operation raises \<^verbatim>\<open>FloatingPointError\<close> when it
  signals \<^emph>\<open>invalid\<close> (a NaN made from operands none of which is NaN) or \<^emph>\<open>divide by
  zero\<close> (a finite number over zero). A NaN operand passes through quietly.
\<close>

definition signals_invalid :: "(flt \<Rightarrow> flt \<Rightarrow> flt) \<Rightarrow> flt \<Rightarrow> flt \<Rightarrow> bool" where
  "signals_invalid f a b = (f a b = NaN \<and> a \<noteq> NaN \<and> b \<noteq> NaN)"

fun fdiv_signals :: "flt \<Rightarrow> flt \<Rightarrow> bool" where
  "fdiv_signals (Fin a) (Fin b) = (b = 0)"
| "fdiv_signals a b = signals_invalid fdiv a b"

section \<open>Errors\<close>

text \<open>The exceptions the modelled code can raise. The last one is the plain
  \<^verbatim>\<open>Exception\<close> of \<^verbatim>\<open>dynamic_kabsch\<close>, with its message.\<close>

datatype py_error =
    IndexError
  | KeyError
  | ValueError
  | ZeroDivisionError
  | FloatingPointError
  | Exception string

section \<open>Vectors and matrices\<close>

text \<open>A point is a row of three finite coordinates; a matrix is three rows. The
  \<open>f\<close>-variants hold numbers that may be special values.\<close>

type_synonym vec = "real \<times> real \<times> real"
type_synonym mat = "vec \<times> vec \<times> vec"
type_synonym fvec = "flt \<times> flt \<times> flt"
type_synonym fmat = "fvec \<times> fvec \<times> fvec"

fun vadd :: "vec \<Rightarrow> vec \<Rightarrow> vec" where
  "vadd (a1, a2, a3) (b1, b2, b3) = (a1 + b1, a2 + b2, a3 + b3)"

fun vsub :: "vec \<Rightarrow> vec \<Rightarrow> vec" where
  "vsub (a1, a2, a3) (b1, b2, b3) = (a1 - b1, a2 - b2, a3 - b3)"

fun vscale :: "real \<Rightarrow> vec \<Rightarrow> vec" where
  "vscale k (a1, a2, a3) = (k * a1, k * a2, k * a3)"

fun vdot :: "vec \<Rightarrow> vec \<Rightarrow> real" where
  "vdot (a1, a2, a3) (b1, b2, b3) = a1 * b1 + a2 * b2 + a3 * b3"

text \<open>\<^verbatim>\<open>np.linalg.norm\<close> of a vector of finite numbers.\<close>

definition vnorm :: "vec \<Rightarrow> real" where
  "vnorm a = sqrt (vdot a a)"

fun fin_vec :: "vec \<Rightarrow> fvec" where
  "fin_vec (a1, a2, a3) = (Fin a1, Fin a2, Fin a3)"

fun fvadd :: "fvec \<Rightarrow> fvec \<Rightarrow> fvec" where
  "fvadd (a1, a2, a3) (b1, b2, b3) = (a1 + b1, a2 + b2, a3 + b3)"

text \<open>A vector divided by a scalar, component by component.\<close>

fun fvdiv :: "fvec \<Rightarrow> flt \<Rightarrow> fvec" where
  "fvdiv (a1, a2, a3) n = (a1 / n, a2 / n, a3 / n)"

fun fvdiv_signals :: "fvec \<Rightarrow> flt \<Rightarrow> bool" where
  "fvdiv_signals (a1, a2, a3) n = (fdiv_signals a1 n \<or> fdiv_signals a2 n \<or> fdiv_signals a3 n)"

fun np_dot :: "fvec \<Rightarrow> fvec \<Rightarrow> flt" where
  "np_dot (a1, a2, a3) (b1, b2, b3) = a1 * b1 + a2 * b2 + a3 * b3"

fun np_cross :: "fvec \<Rightarrow> fvec \<Rightarrow> fvec" where
  "np_cross (a1, a2, a3) (b1, b2, b3) =
     (a2 * b3 - a3 * b2, a3 * b1 - a1 * b3, a1 * b2 - a2 * b1)"

text \<open>Whether one of the six products or three differences of the cross product
  signals \<^emph>\<open>invalid\<close>.\<close>

fun np_cross_signals :: "fvec \<Rightarrow> fvec \<Rightarrow> bool" where
  "np_cross_signals (a1, a2, a3) (b1, b2, b3) =
     (signals_invalid fmul a2 b3 \<or> signals_invalid fmul a3 b2 \<or>
      signals_invalid fmul a3 b1 \<or> signals_invalid fmul a1 b3 \<or>
      signals_invalid fmul a1 b2 \<or> signals_invalid fmul a2 b1 \<or>
      signals_invalid (\<lambda>p q. p - q) (a2 * b3) (a3 * b2) \<or>
      signals_invalid (\<lambda>p q. p - q) (a3 * b1) (a1 * b3) \<or>
      signals_invalid (\<lambda>p q. p - q) (a1 * b2) (a2 * b1))"

text \<open>\<^verbatim>\<open>np.linalg.norm\<close>: the square root of the sum of the squares. A sum of squares
  is never negative, so the root signals nothing.\<close>

definition np_norm :: "fvec \<Rightarrow> flt" where
  "np_norm a = fsqrt (np_dot a a)"

text \<open>A row vector times a matrix (\<^verbatim>\<open>rbld.dot(rot)\<close>, \<^verbatim>\<open>np.dot(q, r)\<close>).\<close>

fun fvec_mat :: "fvec \<Rightarrow> fmat \<Rightarrow> fvec" where
  "fvec_mat (a1, a2, a3) ((r11, r12, r13), (r21, r22, r23), (r31, r32, r33)) =
     (a1 * r11 + a2 * r21 + a3 * r31,
      a1 * r12 + a2 * r22 + a3 * r32,
      a1 * r13 + a2 * r23 + a3 * r33)"

fun vec_mat :: "vec \<Rightarrow> mat \<Rightarrow> vec" where
  "vec_mat (a1, a2, a3) ((r11, r12, r13), (r21, r22, r23), (r31, r32, r33)) =
     (a1 * r11 + a2 * r21 + a3 * r31,
      a1 * r12 + a2 * r22 + a3 * r32,
      a1 * r13 + a2 * r23 + a3 * r33)"

fun mat_mul :: "mat \<Rightarrow> mat \<Rightarrow> mat" where
  "mat_mul (r1, r2, r3) m = (vec_mat r1 m, vec_mat r2 m, vec_mat r3 m)"

fun transpose3 :: "mat \<Rightarrow> mat" where
  "transpose3 ((a11, a12, a13), (a21, a22, a23), (a31, a32, a33)) =
     ((a11, a21, a31), (a12, a22, a32), (a13, a23, a33))"

fun det3 :: "mat \<Rightarrow> real" where
  "det3 ((a11, a12, a13), (a21, a22, a23), (a31, a32, a33)) =
     a11 * (a22 * a33 - a23 * a32) - a12 * (a21 * a33 - a23 * a31) + a13 * (a21 * a32 - a22 * a31)"

definition identity3 :: mat where
  "identity3 = ((1, 0, 0), (0, 1, 0), (0, 0, 1))"

fun mat_add :: "mat \<Rightarrow> mat \<Rightarrow> mat" where
  "mat_add (r1, r2, r3) (s1, s2, s3) = (vadd r1 s1, vadd r2 s2, vadd r3 s3)"


text \<open>The outer product \<open>a\<^sup>T b\<close> of two rows.\<close>

fun outer :: "vec \<Rightarrow> vec \<Rightarrow> mat" where
  "outer (a1, a2, a3) b = (vscale a1 b, vscale a2 b, vscale a3 b)"

definition zero3 :: mat where
  "zero3 = ((0, 0, 0), (0, 0, 0), (0, 0, 0))"

text \<open>A proper rotation: the rows are orthonormal and the determinant is \<open>1\<close>.\<close>

definition is_rotation :: "mat \<Rightarrow> bool" where
  "is_rotation m = (mat_mul m (transpose3 m) = identity3 \<and> det3 m = 1)"

fun fin_mat :: "mat \<Rightarrow> fmat" where
  "fin_mat (r1, r2, r3) = (fin_vec r1, fin_vec r2, fin_vec r3)"

section \<open>Side chain modeller\<close>

subsection \<open>The local frame\<close>

text \<open>
  \<^verbatim>\<open>
  def _mk_local_system(c1, c2, c3):
      rdif = c3 - c1
      rdnorm = np.linalg.norm(rdif)
      rsum = (c3 - c2) + (c1 - c2)
      z = -1 * rsum / np.linalg.norm(rsum)
      x = rdif / rdnorm
      y = np.cross(z, x)
      return x, y, z, rdnorm
  \<close>
  It runs in numpy's default error state, where a division by zero warns and goes on:
  \<open>0 / 0\<close> is NaN. There is no check of the span or of the bisector.
\<close>

definition mk_local_system :: "vec \<Rightarrow> vec \<Rightarrow> vec \<Rightarrow> fvec \<times> fvec \<times> fvec \<times> real" where
  "mk_local_system c1 c2 c3 =
     (let rdif = vsub c3 c1;
          rdnorm = vnorm rdif;
          rsum = vadd (vsub c3 c2) (vsub c1 c2);
          z = fvdiv (fin_vec (vscale (- 1) rsum)) (Fin (vnorm rsum));
          x = fvdiv (fin_vec rdif) (Fin rdnorm);
          y = np_cross z x
      in (x, y, z, rdnorm))"

text \<open>
  \<^verbatim>\<open>
  def _calc_nodes_line(old_v, new_v):
      w = np.cross(old_v, new_v)
      return w / np.linalg.norm(w)
  \<close>
  Its one call stands between \<^verbatim>\<open>np.seterr(all='raise')\<close> and the restoring
  \<^verbatim>\<open>np.seterr(**setting)\<close>, so here a signalling operation raises.
\<close>

definition calc_nodes_line :: "fvec \<Rightarrow> fvec \<Rightarrow> py_error + fvec" where
  "calc_nodes_line old_v new_v =
     (if np_cross_signals old_v new_v then Inl FloatingPointError
      else let w = np_cross old_v new_v; n = np_norm w
           in if fvdiv_signals w n then Inl FloatingPointError else Inr (fvdiv w n))"

text \<open>
  \<^verbatim>\<open>
  def _calc_trig_fnc(ve1, ve2, axis):
      cos = np.dot(ve1, ve2)
      perp_vec = np.cross(ve1, ve2)
      sin = np.linalg.norm(perp_vec) * np.sign(np.dot(perp_vec, axis))
      return cos, sin
  \<close>
\<close>

definition calc_trig_fnc :: "fvec \<Rightarrow> fvec \<Rightarrow> fvec \<Rightarrow> flt \<times> flt" where
  "calc_trig_fnc ve1 ve2 axis =
     (let cos = np_dot ve1 ve2;
          perp_vec = np_cross ve1 ve2;
          sin = np_norm perp_vec * np_sign (np_dot perp_vec axis)
      in (cos, sin))"

subsection \<open>The rotation matrix\<close>

text \<open>
  \<^verbatim>\<open>_calc_rot_mtx(self, c1, c2, c3, dbg=False)\<close>, without the debugger branch
  (\<^verbatim>\<open>dbg\<close> is never set by the callers). Only \<^verbatim>\<open>FloatingPointError\<close> is caught around
  the node line; the trigonometric functions are computed after the error state has
  been restored.
\<close>

definition rot_of_trig :: "flt \<times> flt \<Rightarrow> flt \<times> flt \<Rightarrow> flt \<times> flt \<Rightarrow> fmat" where
  "rot_of_trig ph ps th =
     (let cph = fst ph; sph = snd ph; cps = fst ps; sps = snd ps; cth = fst th; sth = snd th
      in ((cps * cph - sps * sph * cth, sph * cps + sps * cth * cph, sps * sth),
          (Fin (- 1) * sps * cph - sph * cps * cth, Fin (- 1) * sps * sph + cps * cth * cph, cps * sth),
          (sth * sph, (- sth) * cph, cth)))"

definition calc_rot_mtx :: "vec \<Rightarrow> vec \<Rightarrow> vec \<Rightarrow> py_error + fmat \<times> real" where
  "calc_rot_mtx c1 c2 c3 =
     (case mk_local_system c1 c2 c3 of (x, y, z, rdnorm) \<Rightarrow>
        (case (case calc_nodes_line (Fin 0, Fin 0, Fin 1) z of
                 Inl FloatingPointError \<Rightarrow> Inr x
               | Inl e \<Rightarrow> Inl e
               | Inr w \<Rightarrow> Inr w) of
           Inl e \<Rightarrow> Inl e
         | Inr w \<Rightarrow>
             Inr (rot_of_trig
                    (calc_trig_fnc (Fin 1, Fin 0, Fin 0) w (Fin 0, Fin 0, Fin 1))
                    (calc_trig_fnc w x z)
                    (calc_trig_fnc (Fin 0, Fin 0, Fin 1) z w),
                  rdnorm)))"

subsection \<open>The scatter coefficient\<close>

text \<open>
  \<^verbatim>\<open>
  def _calc_scatter_coef(dist):
      if dist < 5.3: return 1.
      if dist > 6.4: return 0.
      return float((dist - 5.3) * -(1 / 1.1) + 1)
  \<close>
  In the exact view, on a span (the norm of a vector of finite numbers):
\<close>

definition calc_scatter_coef :: "real \<Rightarrow> real" where
  "calc_scatter_coef d =
     (if d < 53 / 10 then 1
      else if d > 64 / 10 then 0
      else (d - 53 / 10) * - (1 / (11 / 10)) + 1)"

text \<open>In the binary64 view: each literal is the binary64 number nearest to the
  decimal, and each operation rounds its exact result.\<close>

definition calc_scatter_coef_b64 :: "real \<Rightarrow> real" where
  "calc_scatter_coef_b64 d =
     (if d < b64 (53 / 10) then 1
      else if d > b64 (64 / 10) then 0
      else b64 (b64 (b64 (d - b64 (53 / 10)) * - b64 (1 / b64 (11 / 10))) + 1))"

subsection \<open>Rebuilding one chain\<close>

text \<open>The table \<^verbatim>\<open>SIDECNT\<close> of side chain coordinates: per residue name, the offset
  in the compact and in the extended conformation.\<close>

definition SIDECNT :: "(string \<times> real \<times> real \<times> real \<times> real \<times> real \<times> real) list" where
  "SIDECNT =
    [(''CYS'', - 139 / 1000, - 1265 / 1000, 1619 / 1000, 19 / 1000, - 813 / 1000, 1897 / 1000),
     (''GLN'', - 95 / 1000, - 1674 / 1000, 2612 / 1000, 47 / 1000, - 886 / 1000, 2991 / 1000),
     (''ILE'', 94 / 1000, - 1416 / 1000, 1836 / 1000, - 105 / 1000, - 659 / 1000, 2219 / 1000),
     (''SER'', 121 / 1000, - 1476 / 1000, 1186 / 1000, 223 / 1000, - 1042 / 1000, 1571 / 1000),
     (''VAL'', 264 / 1000, - 1194 / 1000, 1531 / 1000, 77 / 1000, - 631 / 1000, 1854 / 1000),
     (''MET'', - 40 / 1000, - 1446 / 1000, 2587 / 1000, 72 / 1000, - 810 / 1000, 2883 / 1000),
     (''PRO'', - 751 / 1000, - 1643 / 1000, 467 / 1000, - 1016 / 1000, - 1228 / 1000, 977 / 1000),
     (''LYS'', 32 / 1000, - 1835 / 1000, 2989 / 1000, 2 / 1000, - 882 / 1000, 3405 / 1000),
     (''THR'', 75 / 1000, - 1341 / 1000, 1398 / 1000, 51 / 1000, - 909 / 1000, 1712 / 1000),
     (''PHE'', 151 / 1000, - 1256 / 1000, 3161 / 1000, - 448 / 1000, - 791 / 1000, 3286 / 1000),
     (''ALA'', 253 / 1000, - 1133 / 1000, 985 / 1000, 119 / 1000, - 763 / 1000, 1312 / 1000),
     (''HIS'', - 301 / 1000, - 1405 / 1000, 2801 / 1000, - 207 / 1000, - 879 / 1000, 3019 / 1000),
     (''GLY'', 0, - 111 / 1000, - 111 / 1000, 0, - 111 / 1000, - 111 / 1000),
     (''ASP'', - 287 / 1000, - 1451 / 1000, 1989 / 1000, 396 / 1000, - 798 / 1000, 2313 / 1000),
     (''GLU'', - 28 / 1000, - 1774 / 1000, 2546 / 1000, 96 / 1000, - 923 / 1000, 3016 / 1000),
     (''LEU'', - 69 / 1000, - 1247 / 1000, 2292 / 1000, 2 / 1000, - 462 / 1000, 2579 / 1000),
     (''ARG'', - 57 / 1000, - 2522 / 1000, 3639 / 1000, - 57 / 1000, - 1210 / 1000, 3986 / 1000),
     (''TRP'', 558 / 1000, - 1694 / 1000, 3433 / 1000, - 60 / 1000, - 574 / 1000, 3834 / 1000),
     (''ASN'', - 402 / 1000, - 1237 / 1000, 2111 / 1000, 132 / 1000, - 863 / 1000, 2328 / 1000),
     (''TYR'', 308 / 1000, - 1387 / 1000, 3492 / 1000, - 618 / 1000, - 799 / 1000, 3634 / 1000)]"

text \<open>
  The first two lines of \<^verbatim>\<open>rebuild_one\<close> put a ghost point before the first and after
  the last point:
  \<^verbatim>\<open>
  vec = np.insert(vec, 0, vec[0] - (vec[2] - vec[1]), axis=0)
  vec = np.append(vec, np.array([vec[-1] + (vec[-2] - vec[-3])]), axis=0)
  \<close>
  \<^verbatim>\<open>vec[2]\<close> raises \<^verbatim>\<open>IndexError\<close> on fewer than three points. In the second line
  \<^verbatim>\<open>vec\<close> is the array with the first ghost, of at least four points.
\<close>

definition pad_ends :: "vec list \<Rightarrow> py_error + vec list" where
  "pad_ends vec =
     (if length vec < 3 then Inl IndexError
      else let vec1 = vsub (vec ! 0) (vsub (vec ! 2) (vec ! 1)) # vec;
               m = length vec1
           in Inr (vec1 @ [vadd (vec1 ! (m - 1)) (vsub (vec1 ! (m - 2)) (vec1 ! (m - 3)))]))"

text \<open>The residue name of position \<open>i\<close>: \<^verbatim>\<open>self.nms[i].resname\<close> with side chains,
  \<^verbatim>\<open>'ALA'\<close> without. The mers \<^verbatim>\<open>self.nms\<close> are modelled by their residue names.\<close>

definition nms_at :: "string list \<Rightarrow> bool \<Rightarrow> nat \<Rightarrow> py_error + string" where
  "nms_at nms sc i =
     (if sc then (if i < length nms then Inr (nms ! i) else Inl IndexError) else Inr ''ALA'')"

text \<open>
  The body of the loop of \<^verbatim>\<open>rebuild_one\<close>, for the index \<open>i\<close> into the padded array:
  \<^verbatim>\<open>
  rot, casdist = self._calc_rot_mtx(*vec[i: i + 3])
  coef = self._calc_scatter_coef(casdist)
  comp = np.array(SIDECNT[nms(i)][:3]) * coef
  scat = np.array(SIDECNT[nms(i)][3:]) * (1 - coef)
  rbld = np.array(comp + scat)
  nvec[i] = rbld.dot(rot).A1 + vec[i + 1]
  \<close>
\<close>

definition rebuild_step :: "string list \<Rightarrow> bool \<Rightarrow> vec list \<Rightarrow> nat \<Rightarrow> py_error + fvec" where
  "rebuild_step nms sc vec i =
     (case calc_rot_mtx (vec ! i) (vec ! (i + 1)) (vec ! (i + 2)) of
        Inl e \<Rightarrow> Inl e
      | Inr (rot, casdist) \<Rightarrow>
          (let coef = calc_scatter_coef casdist in
           case nms_at nms sc i of
             Inl e \<Rightarrow> Inl e
           | Inr name \<Rightarrow>
               (case map_of SIDECNT name of
                  None \<Rightarrow> Inl KeyError
                | Some (s1, s2, s3, s4, s5, s6) \<Rightarrow>
                    (let comp = vscale coef (s1, s2, s3);
                         scat = vscale (1 - coef) (s4, s5, s6);
                         rbld = vadd comp scat
                     in Inr (fvadd (fvec_mat (fin_vec rbld) rot) (fin_vec (vec ! (i + 1))))))))"

text \<open>The loop \<^verbatim>\<open>for i in xrange(len(vec) - 2)\<close>: the first exception ends it.\<close>

fun rebuild_from :: "string list \<Rightarrow> bool \<Rightarrow> vec list \<Rightarrow> nat list \<Rightarrow> py_error + fvec list" where
  "rebuild_from nms sc vec [] = Inr []"
| "rebuild_from nms sc vec (i # rest) =
     (case rebuild_step nms sc vec i of
        Inl e \<Rightarrow> Inl e
      | Inr p \<Rightarrow>
          (case rebuild_from nms sc vec rest of
             Inl e \<Rightarrow> Inl e
           | Inr ps \<Rightarrow> Inr (p # ps)))"

definition rebuild_one :: "string list \<Rightarrow> vec list \<Rightarrow> bool \<Rightarrow> py_error + fvec list" where
  "rebuild_one nms vec sc =
     (case pad_ends vec of
        Inl e \<Rightarrow> Inl e
      | Inr padded \<Rightarrow> rebuild_from nms sc padded [0 ..< length padded - 2])"

section \<open>Alignment\<close>

subsection \<open>Averages\<close>

text \<open>
  \<^verbatim>\<open>np.average(a, axis=0, weights=w)\<close> for a list of numbers. Without weights it is the
  mean, which is NaN (\<open>None\<close>) for no numbers. With weights, numpy raises
  \<^verbatim>\<open>ValueError\<close> when their number differs from that of the values, and
  \<^verbatim>\<open>ZeroDivisionError\<close> when they sum to zero.
\<close>

definition np_average :: "real list \<Rightarrow> real list option \<Rightarrow> py_error + real option" where
  "np_average a weights =
     (case weights of
        None \<Rightarrow> Inr (if a = [] then None else Some (sum_list a / real (length a)))
      | Some w \<Rightarrow>
          if length w \<noteq> length a then Inl ValueError
          else if sum_list w = 0 then Inl ZeroDivisionError
          else Inr (Some (sum_list (map2 (*) w a) / sum_list w)))"

fun vsum :: "vec list \<Rightarrow> vec" where
  "vsum [] = (0, 0, 0)"
| "vsum (p # ps) = vadd p (vsum ps)"

text \<open>The same for the rows of an array of points, with weights.\<close>

definition np_average_rows :: "vec list \<Rightarrow> real list \<Rightarrow> py_error + vec" where
  "np_average_rows a w =
     (if length w \<noteq> length a then Inl ValueError
      else if sum_list w = 0 then Inl ZeroDivisionError
      else Inr (vscale (1 / sum_list w) (vsum (map2 vscale w a))))"

text \<open>The mean of the rows, without weights. For no rows numpy gives NaN; the one
  use, in \<^verbatim>\<open>kabsch\<close>, subtracts it from each of the (no) rows, so that the value chosen
  here for no rows is never seen.\<close>

definition np_mean_rows :: "vec list \<Rightarrow> vec" where
  "np_mean_rows a = vscale (1 / real (length a)) (vsum a)"

subsection \<open>Kabsch\<close>

text \<open>
  numpy's broadcasting of two arrays along their first axis: equal lengths pair up,
  and an array of length one is repeated; anything else is a \<^verbatim>\<open>ValueError\<close>.
\<close>

definition broadcast2 :: "'a list \<Rightarrow> 'b list \<Rightarrow> py_error + ('a \<times> 'b) list" where
  "broadcast2 xs ys =
     (if length xs = length ys then Inr (zip xs ys)
      else if length xs = 1 then Inr (zip (replicate (length ys) (hd xs)) ys)
      else if length ys = 1 then Inr (zip xs (replicate (length xs) (hd ys)))
      else Inl ValueError)"

fun msum :: "mat list \<Rightarrow> mat" where
  "msum [] = zero3"
| "msum (m # ms) = mat_add m (msum ms)"

text \<open>\<^verbatim>\<open>np.dot(a.T, q)\<close> for two arrays of rows: the sum of the outer products of the
  paired rows, and a \<^verbatim>\<open>ValueError\<close> when the numbers of rows differ.\<close>

definition dot_T :: "vec list \<Rightarrow> vec list \<Rightarrow> py_error + mat" where
  "dot_T a q = (if length a \<noteq> length q then Inl ValueError else Inr (msum (map2 outer a q)))"

text \<open>
  The singular value decomposition \<^verbatim>\<open>np.linalg.svd\<close> is a library routine outside the
  repository; it is a parameter of the model: \<open>svd c = (v, s, w)\<close> with
  \<open>c = v diag(s) w\<close>.
\<close>

type_synonym svd_fn = "mat \<Rightarrow> mat \<times> vec \<times> mat"

text \<open>
  \<^verbatim>\<open>
  def kabsch(target, query, weights=None, concentric=False):
      if not concentric:
          t = target - np.average(target, axis=0, weights=weights)
          q = query - np.average(query, axis=0, weights=weights)
      else:
          t = target
          q = query
      c = np.dot(weights * t.T, q) if weights else np.dot(t.T, q)
      v, s, w = np.linalg.svd(c)
      d = np.identity(3)
      if np.linalg.det(c) < 0:
          d[2, 2] = -1
      return np.dot(np.dot(w.T, d), v.T)
  \<close>
  The weights are a Python list: \<^verbatim>\<open>if weights\<close> is false for \<^verbatim>\<open>None\<close> and for the empty
  list.
\<close>

definition center_rows :: "vec list \<Rightarrow> real list option \<Rightarrow> py_error + vec list" where
  "center_rows a weights =
     (case weights of
        None \<Rightarrow> Inr (map (\<lambda>p. vsub p (np_mean_rows a)) a)
      | Some w \<Rightarrow>
          (case np_average_rows a w of
             Inl e \<Rightarrow> Inl e
           | Inr c \<Rightarrow> Inr (map (\<lambda>p. vsub p c) a)))"

definition covariance :: "vec list \<Rightarrow> vec list \<Rightarrow> real list option \<Rightarrow> py_error + mat" where
  "covariance t q weights =
     (case weights of
        None \<Rightarrow> dot_T t q
      | Some [] \<Rightarrow> dot_T t q
      | Some w \<Rightarrow>
          (case broadcast2 w t of
             Inl e \<Rightarrow> Inl e
           | Inr wt \<Rightarrow> dot_T (map (\<lambda>(k, p). vscale k p) wt) q))"

definition rotation_of :: "svd_fn \<Rightarrow> mat \<Rightarrow> mat" where
  "rotation_of svd c =
     (case svd c of (v, s, w) \<Rightarrow>
        (let d = (if det3 c < 0 then ((1, 0, 0), (0, 1, 0), (0, 0, - 1)) else identity3)
         in mat_mul (mat_mul (transpose3 w) d) (transpose3 v)))"

definition kabsch ::
  "svd_fn \<Rightarrow> vec list \<Rightarrow> vec list \<Rightarrow> real list option \<Rightarrow> bool \<Rightarrow> py_error + mat" where
  "kabsch svd target query weights concentric =
     (case (if \<not> concentric
            then (case center_rows target weights of
                    Inl e \<Rightarrow> Inl e
                  | Inr t \<Rightarrow>
                      (case center_rows query weights of
                         Inl e \<Rightarrow> Inl e
                       | Inr q \<Rightarrow> Inr (t, q)))
            else Inr (target, query)) of
        Inl e \<Rightarrow> Inl e
      | Inr (t, q) \<Rightarrow>
          (case covariance t q weights of
             Inl e \<Rightarrow> Inl e
           | Inr c \<Rightarrow> Inr (rotation_of svd c)))"

subsection \<open>The root mean square deviation\<close>

definition LARGE :: real where
  "LARGE = 1000"

definition TINY :: real where
  "TINY = 1 / 1000"

text \<open>
  \<^verbatim>\<open>
  def rmsd(target, query=None, weights=None):
      _diff = target if query is None else query - target
      _rmsd = np.sqrt(np.average(np.sum(_diff ** 2, axis=1), axis=0, weights=weights))
      return _rmsd if _rmsd > _TINY else 0.
  \<close>
  The root of a negative average and of the NaN average are NaN, and a comparison
  with NaN is false: both give \<open>0\<close>.
\<close>

definition rmsd :: "vec list \<Rightarrow> vec list option \<Rightarrow> real list option \<Rightarrow> py_error + real" where
  "rmsd target query weights =
     (case (case query of
              None \<Rightarrow> Inr target
            | Some q \<Rightarrow>
                (case broadcast2 q target of
                   Inl e \<Rightarrow> Inl e
                 | Inr qt \<Rightarrow> Inr (map (\<lambda>(a, b). vsub a b) qt))) of
        Inl e \<Rightarrow> Inl e
      | Inr diff \<Rightarrow>
          (case np_average (map (\<lambda>d. vdot d d) diff) weights of
             Inl e \<Rightarrow> Inl e
           | Inr None \<Rightarrow> Inr 0
           | Inr (Some a) \<Rightarrow>
               if a < 0 then Inr 0
               else (let r = sqrt a in Inr (if r > TINY then r else 0))))"

subsection \<open>The iterated alignment\<close>

text \<open>
  \<^verbatim>\<open>
  def dynamic_kabsch(target, query):
      _MAX_ITER = 100
      _rmsd = _LARGE
      w = [1.0] * len(target)
      for i in range(_MAX_ITER):
          t_com = np.average(target, 0, w)
          q_com = np.average(query, 0, w)
          t = target - t_com
          q = query - q_com
          r = kabsch(target=t, query=q, weights=w, concentric=True)
          q = np.dot(q, r)
          _diff = q - t
          _current = rmsd(_diff, weights=w)
          if np.abs(_current - _rmsd) < _TINY:
              return _rmsd, r, t_com, q_com
          _rmsd = _current
          w = np.exp(-np.sum(_diff ** 2, axis=1) / max(_rmsd, 2.)).tolist()
      else:
          raise Exception('Dynamic Kabsch did not converge in %i steps.' % _MAX_ITER)
  \<close>
  The part of the body before the test, for the weights \<open>w\<close>: it gives the current
  deviation, the rotation, the two centroids and the differences.
\<close>

definition dk_body ::
  "svd_fn \<Rightarrow> vec list \<Rightarrow> vec list \<Rightarrow> real list \<Rightarrow> py_error + real \<times> mat \<times> vec \<times> vec \<times> vec list" where
  "dk_body svd target query w =
     (case np_average_rows target w of
        Inl e \<Rightarrow> Inl e
      | Inr t_com \<Rightarrow>
     (case np_average_rows query w of
        Inl e \<Rightarrow> Inl e
      | Inr q_com \<Rightarrow>
     (let t = map (\<lambda>p. vsub p t_com) target;
          q = map (\<lambda>p. vsub p q_com) query
      in case kabsch svd t q (Some w) True of
           Inl e \<Rightarrow> Inl e
         | Inr r \<Rightarrow>
             (let q' = map (\<lambda>p. vec_mat p r) q;
                  diff = map2 vsub q' t
              in case rmsd diff None (Some w) of
                   Inl e \<Rightarrow> Inl e
                 | Inr current \<Rightarrow> Inr (current, r, t_com, q_com, diff)))))"

text \<open>The weights for the next pass.\<close>

definition dk_weights :: "real \<Rightarrow> vec list \<Rightarrow> real list" where
  "dk_weights current diff = map (\<lambda>d. exp (- vdot d d / max current 2)) diff"

text \<open>The loop, with the number of passes left, the deviation \<^verbatim>\<open>_rmsd\<close> of the pass
  before and the weights.\<close>

fun dk_loop ::
  "svd_fn \<Rightarrow> vec list \<Rightarrow> vec list \<Rightarrow> nat \<Rightarrow> real \<Rightarrow> real list \<Rightarrow> py_error + real \<times> mat \<times> vec \<times> vec" where
  "dk_loop svd target query 0 prev w =
     Inl (Exception ''Dynamic Kabsch did not converge in 100 steps.'')"
| "dk_loop svd target query (Suc n) prev w =
     (case dk_body svd target query w of
        Inl e \<Rightarrow> Inl e
      | Inr (current, r, t_com, q_com, diff) \<Rightarrow>
          if \<bar>current - prev\<bar> < TINY then Inr (prev, r, t_com, q_com)
          else dk_loop svd target query n current (dk_weights current diff))"

definition dynamic_kabsch ::
  "svd_fn \<Rightarrow> vec list \<Rightarrow> vec list \<Rightarrow> py_error + real \<times> mat \<times> vec \<times> vec" where
  "dynamic_kabsch svd target query =
     dk_loop svd target query 100 LARGE (replicate (length target) 1)"

section \<open>Notions used to state the properties\<close>

text \<open>The vector of three NaN.\<close>

definition nan_vec :: fvec where
  "nan_vec = (NaN, NaN, NaN)"

text \<open>
  The real counterparts of the steps of \<^verbatim>\<open>_calc_rot_mtx\<close>, for points at which no
  special value arises: the cross product, the vector scaled to length one, the
  cosine and sine pair of \<^verbatim>\<open>_calc_trig_fnc\<close>, and the matrix built from three such
  pairs.
\<close>

fun vcross :: "vec \<Rightarrow> vec \<Rightarrow> vec" where
  "vcross (a1, a2, a3) (b1, b2, b3) = (a2 * b3 - a3 * b2, a3 * b1 - a1 * b3, a1 * b2 - a2 * b1)"

definition unit_of :: "vec \<Rightarrow> vec" where
  "unit_of v = vscale (1 / vnorm v) v"

definition trig_real :: "vec \<Rightarrow> vec \<Rightarrow> vec \<Rightarrow> real \<times> real" where
  "trig_real a b axis = (vdot a b, vnorm (vcross a b) * sgn (vdot (vcross a b) axis))"

definition euler_mat :: "real \<times> real \<Rightarrow> real \<times> real \<Rightarrow> real \<times> real \<Rightarrow> mat" where
  "euler_mat ph ps th =
     (let cph = fst ph; sph = snd ph; cps = fst ps; sps = snd ps; cth = fst th; sth = snd th
      in ((cps * cph - sps * sph * cth, sph * cps + sps * cth * cph, sps * sth),
          (- 1 * sps * cph - sph * cps * cth, - 1 * sps * sph + cps * cth * cph, cps * sth),
          (sth * sph, - sth * cph, cth)))"

text \<open>
  \<^verbatim>\<open>_calc_trig_fnc\<close> multiplies the length of the cross product by the sign of its
  component along the axis. The sine survives when that component is not zero, and
  nothing is lost when the cross product is zero itself.
\<close>

definition sign_kept :: "vec \<Rightarrow> vec \<Rightarrow> vec \<Rightarrow> bool" where
  "sign_kept a b axis = (vdot (vcross a b) axis \<noteq> 0 \<or> vcross a b = (0, 0, 0))"

text \<open>The axes of the local frame, the line of nodes with its fallback, and the
  matrix, over the reals.\<close>

definition local_x :: "vec \<Rightarrow> vec \<Rightarrow> vec" where
  "local_x c1 c3 = unit_of (vsub c3 c1)"

definition local_z :: "vec \<Rightarrow> vec \<Rightarrow> vec \<Rightarrow> vec" where
  "local_z c1 c2 c3 = vscale (- 1) (unit_of (vadd (vsub c3 c2) (vsub c1 c2)))"

definition nodes_line_of :: "vec \<Rightarrow> vec \<Rightarrow> vec" where
  "nodes_line_of x z =
     (if vcross (0, 0, 1) z = (0, 0, 0) then x else unit_of (vcross (0, 0, 1) z))"

definition rot_real :: "vec \<Rightarrow> vec \<Rightarrow> vec \<Rightarrow> mat" where
  "rot_real c1 c2 c3 =
     (let x = local_x c1 c3; z = local_z c1 c2 c3; w = nodes_line_of x z
      in euler_mat (trig_real (1, 0, 0) w (0, 0, 1)) (trig_real w x z) (trig_real (0, 0, 1) z w))"

text \<open>
  The weighted root mean square of the distances between paired points, as the
  specification words it: the root of the weighted mean of the squared Euclidean
  distances.
\<close>

definition weighted_rms :: "vec list \<Rightarrow> vec list \<Rightarrow> real list \<Rightarrow> real" where
  "weighted_rms target query w =
     sqrt (sum_list (map2 (*) w (map2 (\<lambda>t q. (vnorm (vsub q t))\<^sup>2) target query)) / sum_list w)"

text \<open>
  The passes of \<^verbatim>\<open>dynamic_kabsch\<close>, counted from \<open>0\<close>. \<open>dk_state k\<close> is the pair of
  \<^verbatim>\<open>_rmsd\<close> and \<^verbatim>\<open>w\<close> with which pass \<open>k\<close> starts, when the loop gets that far: no
  earlier pass has returned or raised.
\<close>

fun dk_state :: "svd_fn \<Rightarrow> vec list \<Rightarrow> vec list \<Rightarrow> nat \<Rightarrow> (real \<times> real list) option" where
  "dk_state svd target query 0 = Some (LARGE, replicate (length target) 1)"
| "dk_state svd target query (Suc k) =
     (case dk_state svd target query k of
        None \<Rightarrow> None
      | Some (prev, w) \<Rightarrow>
          (case dk_body svd target query w of
             Inl e \<Rightarrow> None
           | Inr (current, r, t_com, q_com, diff) \<Rightarrow>
               if \<bar>current - prev\<bar> < TINY then None
               else Some (current, dk_weights current diff)))"

text \<open>What pass \<open>k\<close> computes before its test: the current deviation, the rotation,
  the centroids and the differences.\<close>

definition dk_pass ::
  "svd_fn \<Rightarrow> vec list \<Rightarrow> vec list \<Rightarrow> nat \<Rightarrow> (real \<times> mat \<times> vec \<times> vec \<times> vec list) option" where
  "dk_pass svd target query k =
     (case dk_state svd target query k of
        None \<Rightarrow> None
      | Some (prev, w) \<Rightarrow>
          (case dk_body svd target query w of Inl e \<Rightarrow> None | Inr res \<Rightarrow> Some res))"

text \<open>The outcome of the convergence test of pass \<open>k\<close>, when the pass gets to it.\<close>

definition dk_check :: "svd_fn \<Rightarrow> vec list \<Rightarrow> vec list \<Rightarrow> nat \<Rightarrow> bool option" where
  "dk_check svd target query k =
     (case dk_state svd target query k of
        None \<Rightarrow> None
      | Some (prev, w) \<Rightarrow>
          (case dk_body svd target query w of
             Inl e \<Rightarrow> None
           | Inr (current, r, t_com, q_com, diff) \<Rightarrow> Some (\<bar>current - prev\<bar> < TINY)))"

text \<open>
  Two instances of the decomposition parameter for the concrete runs below.
  \<open>svd_diag\<close> decomposes a diagonal matrix with a non-negative, non-increasing
  diagonal (\<open>v\<close> and \<open>w\<close> are the identity); the runs apply it to such matrices only.
  \<open>svd_osc\<close> is not a singular value decomposition: it is an artificial routine
  under which the deviation of a pair of points alternates between \<open>3\<close> and \<open>0\<close>,
  and serves only to show that the last branch of the loop can be reached.
\<close>

definition svd_diag :: svd_fn where
  "svd_diag c = (case c of ((c11, c12, c13), (c21, c22, c23), (c31, c32, c33)) \<Rightarrow>
     (identity3, (c11, c22, c33), identity3))"


text \<open>Point sets of the concrete runs.\<close>

definition skew_target :: "vec list" where
  "skew_target = [(0, 0, 0), (0, 0, 0), (3 / 10000, 0, 0)]"

definition origin_query :: "vec list" where
  "origin_query = [(0, 0, 0), (0, 0, 0), (0, 0, 0)]"

definition pair_pts :: "vec list" where
  "pair_pts = [(1, 0, 0), (- 1, 0, 0)]"

definition w_near :: real where
  "w_near = exp (- (1 / 200000000))"

definition w_far :: real where
  "w_far = exp (- (1 / 50000000))"


section \<open>Properties\<close>

subsection \<open>Arithmetic of the special values\<close>

lemma flt_arith [simp]:
  "Fin a + Fin b = Fin (a + b)"
  "Fin a - Fin b = Fin (a - b)"
  "Fin a * Fin b = Fin (a * b)"
  "- Fin a = Fin (- a)"
  by (simp_all add: plus_flt_def minus_flt_def times_flt_def uminus_flt_def)

lemma flt_div [simp]:
  "Fin a / Fin b =
     (if b = 0 then (if a = 0 then NaN else if 0 < a then PInf else NInf) else Fin (a / b))"
  by (simp add: divide_flt_def)

lemma flt_nan [simp]:
  "NaN + a = NaN" "a + NaN = NaN" "NaN - a = NaN" "a - NaN = NaN"
  "NaN * a = NaN" "a * NaN = NaN" "- NaN = NaN"
  by (cases a; simp add: plus_flt_def minus_flt_def times_flt_def uminus_flt_def)+

lemma signals_fin [simp]:
  "\<not> signals_invalid fmul (Fin a) (Fin b)"
  "\<not> signals_invalid (\<lambda>p q. p - q) (Fin a) (Fin b)"
  by (simp_all add: signals_invalid_def)

lemma sqrt_vals [simp]:
  "sqrt 9 = 3" "sqrt 16 = 4" "sqrt 25 = 5" "sqrt 100 = 10" "sqrt 1000000 = 1000"
  using real_sqrt_abs [of 3] real_sqrt_abs [of 4] real_sqrt_abs [of 5] real_sqrt_abs [of 10]
    real_sqrt_abs [of 1000]
  by simp_all

lemma vdot_self_nonneg: "0 \<le> vdot d d"
  by (cases d) simp

lemma vnorm_sq: "(vnorm d)\<^sup>2 = vdot d d"
  by (simp add: vnorm_def vdot_self_nonneg)

lemma vec_mat_zero: "vec_mat (0, 0, 0) m = (0, 0, 0)"
  by (cases m rule: det3.cases) simp

lemma not_Inl_ex: "(\<And>e. f \<noteq> Inl e) \<Longrightarrow> \<exists>p. f = Inr p"
  by (cases f) auto

subsection \<open>The scatter coefficient\<close>

lemma calc_scatter_coef_below: "d < 53 / 10 \<Longrightarrow> calc_scatter_coef d = 1"
  by (simp add: calc_scatter_coef_def)

lemma calc_scatter_coef_above: "64 / 10 < d \<Longrightarrow> calc_scatter_coef d = 0"
  by (simp add: calc_scatter_coef_def)

lemma calc_scatter_coef_between:
  "53 / 10 \<le> d \<Longrightarrow> d \<le> 64 / 10 \<Longrightarrow> calc_scatter_coef d = (d - 53 / 10) * (- 1 / (11 / 10)) + 1"
  by (simp add: calc_scatter_coef_def)

lemma calc_scatter_coef_ends:
  "calc_scatter_coef (53 / 10) = 1" "calc_scatter_coef (64 / 10) = 0"
  by (simp_all add: calc_scatter_coef_def)

lemma calc_scatter_coef_antimono:
  assumes "d \<le> d'"
  shows "calc_scatter_coef d' \<le> calc_scatter_coef d"
  using assms by (auto simp add: calc_scatter_coef_def field_simps)

lemma calc_scatter_coef_range: "0 \<le> calc_scatter_coef d \<and> calc_scatter_coef d \<le> 1"
  by (auto simp add: calc_scatter_coef_def field_simps)

text \<open>
  C5. In exact arithmetic the scatter coefficient is the piecewise linear function of
  the claim: \<open>1\<close> below \<open>5.3\<close>, \<open>0\<close> above \<open>6.4\<close>, the interpolation between, \<open>1\<close> and
  \<open>0\<close> at the ends, non-increasing, within \<open>[0, 1]\<close> (the lemmas above). The program
  computes it in binary64, and there the upper end is missed. The guard
  \<^verbatim>\<open>dist > 6.4\<close> is strict, so the span \<open>6.4\<close> takes the interpolation branch, where
  \<open>6.4 - 5.3\<close> is \<open>1.1000000000000005\<close> and the product with \<open>-(1 / 1.1)\<close> rounds to
  \<open>-1.0000000000000004\<close>. The result is \<open>-1 / 2 ^ 51\<close>, about \<open>-4.44e-16\<close>: it is not
  \<open>0.0\<close>, and it lies below the range \<open>[0, 1]\<close>.
\<close>

theorem scatter_coef_b64_upper_end:
  "calc_scatter_coef_b64 (b64 (64 / 10)) = - 1 / 2 ^ 51"
  by code_simp

subsection \<open>The rotation matrix\<close>

lemmas frame_defs = calc_rot_mtx_def mk_local_system_def calc_nodes_line_def calc_trig_fnc_def
  rot_of_trig_def np_norm_def vnorm_def Let_def

lemma calc_nodes_line_error: "calc_nodes_line a b = Inl e \<Longrightarrow> e = FloatingPointError"
  by (auto simp: calc_nodes_line_def Let_def split: if_splits)

text \<open>No exception leaves \<^verbatim>\<open>_calc_rot_mtx\<close>, whatever the three points are, and the
  distance it returns is that of the outer points.\<close>

lemma calc_rot_mtx_no_error: "calc_rot_mtx c1 c2 c3 \<noteq> Inl e"
  by (auto simp: calc_rot_mtx_def split: prod.splits sum.splits py_error.splits
      dest: calc_nodes_line_error)

lemma calc_rot_mtx_span: "calc_rot_mtx c1 c2 c3 = Inr (rot, d) \<Longrightarrow> d = vnorm (vsub c3 c1)"
  by (auto simp: calc_rot_mtx_def mk_local_system_def Let_def split: sum.splits)

text \<open>
  On a triplet with distinct outer points and a non-zero bisector every step stays
  finite, and the matrix returned is \<open>rot_real\<close>.
\<close>

lemma np_cross_fin: "np_cross (fin_vec a) (fin_vec b) = fin_vec (vcross a b)"
  by (cases a; cases b) simp

lemma np_dot_fin: "np_dot (fin_vec a) (fin_vec b) = Fin (vdot a b)"
  by (cases a; cases b) simp

lemma np_norm_fin: "np_norm (fin_vec a) = Fin (vnorm a)"
  by (simp add: np_norm_def np_dot_fin vnorm_def not_less vdot_self_nonneg)

lemma calc_trig_fnc_fin:
  "calc_trig_fnc (fin_vec a) (fin_vec b) (fin_vec c) = (Fin (fst (trig_real a b c)), Fin (snd (trig_real a b c)))"
  by (simp add: calc_trig_fnc_def trig_real_def np_cross_fin np_dot_fin np_norm_fin Let_def)

lemma rot_of_trig_fin:
  "rot_of_trig (Fin (fst ph), Fin (snd ph)) (Fin (fst ps), Fin (snd ps)) (Fin (fst th), Fin (snd th))
     = fin_mat (euler_mat ph ps th)"
  by (simp add: rot_of_trig_def euler_mat_def Let_def)

lemma euler_rotation:
  assumes "(fst ph)\<^sup>2 + (snd ph)\<^sup>2 = 1" "(fst ps)\<^sup>2 + (snd ps)\<^sup>2 = 1" "(fst th)\<^sup>2 + (snd th)\<^sup>2 = 1"
  shows "is_rotation (euler_mat ph ps th)"
proof -
  obtain cph sph where ph: "ph = (cph, sph)" by (cases ph)
  obtain cps sps where ps: "ps = (cps, sps)" by (cases ps)
  obtain cth sth where th: "th = (cth, sth)" by (cases th)
  from assms have a: "cph\<^sup>2 + sph\<^sup>2 = 1" "cps\<^sup>2 + sps\<^sup>2 = 1" "cth\<^sup>2 + sth\<^sup>2 = 1"
    by (simp_all add: ph ps th)
  show ?thesis
    unfolding is_rotation_def euler_mat_def identity3_def ph ps th
    apply simp
    using a apply (intro conjI)
             apply algebra+
    done
qed

lemma vcross_lagrange: "vdot (vcross a b) (vcross a b) = vdot a a * vdot b b - (vdot a b)\<^sup>2"
  by (cases a; cases b) (simp add: power2_eq_square algebra_simps)

lemma vnorm_zero_iff: "vnorm v = 0 \<longleftrightarrow> v = (0, 0, 0)"
proof -
  obtain a b c where v: "v = (a, b, c)" by (cases v)
  have "a * a + b * b + c * c = 0 \<longleftrightarrow> a = 0 \<and> b = 0 \<and> c = 0"
    by (metis add_nonneg_eq_0_iff mult_eq_0_iff zero_le_square add_nonneg_nonneg add.right_neutral mult_zero_left)
  then show ?thesis by (simp add: v vnorm_def)
qed

lemma trig_unit:
  assumes "vdot a a = 1" "vdot b b = 1" "sign_kept a b axis"
  shows "(fst (trig_real a b axis))\<^sup>2 + (snd (trig_real a b axis))\<^sup>2 = 1"
proof (cases "vcross a b = (0, 0, 0)")
  case True
  then have "vdot (vcross a b) (vcross a b) = 0" by simp
  then have "(vdot a b)\<^sup>2 = 1" using assms(1,2) by (simp add: vcross_lagrange)
  then show ?thesis using True by (simp add: trig_real_def vnorm_def)
next
  case False
  with assms(3) have "vdot (vcross a b) axis \<noteq> 0" by (simp add: sign_kept_def)
  then have "(sgn (vdot (vcross a b) axis))\<^sup>2 = 1"
    by (simp add: sgn_if)
  then have "(snd (trig_real a b axis))\<^sup>2 = vdot (vcross a b) (vcross a b)"
    by (simp add: trig_real_def power_mult_distrib vnorm_sq)
  then show ?thesis using assms(1,2) by (simp add: trig_real_def vcross_lagrange)
qed

lemma vnorm_pos: "v \<noteq> (0, 0, 0) \<Longrightarrow> 0 < vnorm v"
  using vnorm_zero_iff [of v] vdot_self_nonneg [of v] by (simp add: vnorm_def less_le)

lemma fvdiv_fin:
  assumes "v \<noteq> (0, 0, 0)"
  shows "fvdiv (fin_vec u) (Fin (vnorm v)) = fin_vec (vscale (1 / vnorm v) u)"
  using vnorm_pos [OF assms] by (cases u) simp

lemma unit_of_unit:
  assumes "v \<noteq> (0, 0, 0)"
  shows "vdot (unit_of v) (unit_of v) = 1"
proof -
  obtain a b c where v: "v = (a, b, c)" by (cases v)
  have p: "0 < vnorm v" using assms by (rule vnorm_pos)
  have "vdot (unit_of v) (unit_of v) = vdot v v / (vnorm v)\<^sup>2"
    by (simp add: unit_of_def v power2_eq_square algebra_simps add_divide_distrib)
  also have "\<dots> = 1" using p by (simp add: vnorm_sq [symmetric])
  finally show ?thesis .
qed

lemma vscale_neg_unit: "vdot (vscale (- 1) u) (vscale (- 1) u) = vdot u u"
  by (cases u) simp

lemma mk_local_system_fin:
  assumes "vsub c3 c1 \<noteq> (0, 0, 0)" "vadd (vsub c3 c2) (vsub c1 c2) \<noteq> (0, 0, 0)"
  shows "mk_local_system c1 c2 c3
    = (fin_vec (local_x c1 c3), fin_vec (vcross (local_z c1 c2 c3) (local_x c1 c3)),
       fin_vec (local_z c1 c2 c3), vnorm (vsub c3 c1))"
proof -
  let ?s = "vadd (vsub c3 c2) (vsub c1 c2)"
  have "vscale (1 / vnorm ?s) (vscale (- 1) ?s) = vscale (- 1) (unit_of ?s)"
    by (cases ?s) (simp add: unit_of_def)
  then show ?thesis
    by (simp add: mk_local_system_def Let_def fvdiv_fin [OF assms(1)] fvdiv_fin [OF assms(2)]
        local_x_def local_z_def np_cross_fin unit_of_def)
qed

lemma calc_nodes_line_fin:
  "calc_nodes_line (Fin 0, Fin 0, Fin 1) (fin_vec z)
     = (if vcross (0, 0, 1) z = (0, 0, 0) then Inl FloatingPointError
        else Inr (fin_vec (unit_of (vcross (0, 0, 1) z))))"
proof -
  obtain z1 z2 z3 where z: "z = (z1, z2, z3)" by (cases z)
  have n: "np_norm (Fin (- z2), Fin z1, Fin 0) = Fin (vnorm (- z2, z1, 0))"
    using np_norm_fin [of "(- z2, z1, 0)"] by simp
  have e: "(vnorm (- z2, z1, 0) = 0) = (z2 = 0 \<and> z1 = 0)"
    using vnorm_zero_iff [of "(- z2, z1, 0)"] by simp
  show ?thesis
    unfolding z
    by (simp add: calc_nodes_line_def Let_def n e unit_of_def)
qed

lemma calc_rot_mtx_fin:
  assumes "vsub c3 c1 \<noteq> (0, 0, 0)" "vadd (vsub c3 c2) (vsub c1 c2) \<noteq> (0, 0, 0)"
  shows "calc_rot_mtx c1 c2 c3 = Inr (fin_mat (rot_real c1 c2 c3), vnorm (vsub c3 c1))"
proof -
  have ex: "(Fin 1, Fin 0, Fin 0) = fin_vec (1, 0, 0)" and ez: "(Fin 0, Fin 0, Fin 1) = fin_vec (0, 0, 1)"
    by simp_all
  show ?thesis
  proof (cases "vcross (0, 0, 1) (local_z c1 c2 c3) = (0, 0, 0)")
    case True
    then show ?thesis
      unfolding calc_rot_mtx_def mk_local_system_fin [OF assms]
      by (simp add: calc_nodes_line_fin del: fin_vec.simps)
        (simp add: ex ez calc_trig_fnc_fin rot_of_trig_fin rot_real_def nodes_line_of_def Let_def
          del: fin_vec.simps fin_mat.simps)
  next
    case False
    then show ?thesis
      unfolding calc_rot_mtx_def mk_local_system_fin [OF assms]
      by (simp add: calc_nodes_line_fin del: fin_vec.simps)
        (simp add: ex ez calc_trig_fnc_fin rot_of_trig_fin rot_real_def nodes_line_of_def Let_def
          del: fin_vec.simps fin_mat.simps)
  qed
qed

text \<open>
  When the matrix is a rotation. The pair of the third angle always keeps its sine.
  The matrix is a rotation exactly when the pairs of the other two angles keep
  theirs: off the fallback path this is a condition on the second pair alone, on the
  fallback path a condition on the span of the outer points. Outer points
  equidistant from the middle one always give a rotation.
\<close>

lemma local_x_unit: "vsub c3 c1 \<noteq> (0, 0, 0) \<Longrightarrow> vdot (local_x c1 c3) (local_x c1 c3) = 1"
  by (simp add: local_x_def unit_of_unit)

lemma local_z_unit:
  "vadd (vsub c3 c2) (vsub c1 c2) \<noteq> (0, 0, 0) \<Longrightarrow> vdot (local_z c1 c2 c3) (local_z c1 c2 c3) = 1"
  by (simp add: local_z_def unit_of_unit vscale_neg_unit)

lemma nodes_line_unit: "vdot x x = 1 \<Longrightarrow> vdot (nodes_line_of x z) (nodes_line_of x z) = 1"
  by (simp add: nodes_line_of_def unit_of_unit)

lemma vdot_unit_of: "v \<noteq> (0, 0, 0) \<Longrightarrow> vdot v (unit_of v) = vnorm v"
proof -
  assume a: "v \<noteq> (0, 0, 0)"
  obtain a b c where v: "v = (a, b, c)" by (cases v)
  have p: "0 < vnorm v" using a by (rule vnorm_pos)
  have "vdot v (unit_of v) = vdot v v / vnorm v"
    by (simp add: unit_of_def v algebra_simps add_divide_distrib)
  also have "\<dots> = (vnorm v)\<^sup>2 / vnorm v" by (simp add: vnorm_sq)
  also have "\<dots> = vnorm v" using p by (simp add: power2_eq_square)
  finally show ?thesis .
qed

lemma theta_sign_kept: "sign_kept (0, 0, 1) z (nodes_line_of x z)"
proof (cases "vcross (0, 0, 1) z = (0, 0, 0)")
  case True
  then show ?thesis by (simp add: sign_kept_def)
next
  case False
  then have "vdot (vcross (0, 0, 1) z) (nodes_line_of x z) = vnorm (vcross (0, 0, 1) z)"
    by (simp add: nodes_line_of_def vdot_unit_of)
  then show ?thesis using vnorm_pos [OF False] by (simp add: sign_kept_def)
qed

lemma trig_le:
  assumes "vdot a a = 1" "vdot b b = 1"
  shows "(fst (trig_real a b axis))\<^sup>2 + (snd (trig_real a b axis))\<^sup>2 \<le> 1"
proof -
  have "(sgn (vdot (vcross a b) axis))\<^sup>2 \<le> 1"
    by (simp add: sgn_if)
  then have "(snd (trig_real a b axis))\<^sup>2 \<le> vdot (vcross a b) (vcross a b)"
    using vdot_self_nonneg [of "vcross a b"]
    by (simp add: trig_real_def power_mult_distrib vnorm_sq mult_left_le)
  then show ?thesis using assms by (simp add: trig_real_def vcross_lagrange)
qed

lemma trig_unit_iff:
  assumes "vdot a a = 1" "vdot b b = 1"
  shows "(fst (trig_real a b axis))\<^sup>2 + (snd (trig_real a b axis))\<^sup>2 = 1 \<longleftrightarrow> sign_kept a b axis"
proof
  assume "sign_kept a b axis"
  with assms show "(fst (trig_real a b axis))\<^sup>2 + (snd (trig_real a b axis))\<^sup>2 = 1"
    by (rule trig_unit)
next
  assume u: "(fst (trig_real a b axis))\<^sup>2 + (snd (trig_real a b axis))\<^sup>2 = 1"
  show "sign_kept a b axis"
  proof (rule ccontr)
    assume "\<not> sign_kept a b axis"
    then have z: "vdot (vcross a b) axis = 0" and n: "vcross a b \<noteq> (0, 0, 0)"
      by (simp_all add: sign_kept_def)
    from z u have "(vdot a b)\<^sup>2 = 1" by (simp add: trig_real_def)
    then have "vdot (vcross a b) (vcross a b) = 0" using assms by (simp add: vcross_lagrange)
    then have "vnorm (vcross a b) = 0" by (simp add: vnorm_def)
    with n show False by (simp add: vnorm_zero_iff)
  qed
qed

lemma euler_rotation_iff:
  assumes th: "(fst th)\<^sup>2 + (snd th)\<^sup>2 = 1"
    and ph: "(fst ph)\<^sup>2 + (snd ph)\<^sup>2 \<le> 1" and ps: "(fst ps)\<^sup>2 + (snd ps)\<^sup>2 \<le> 1"
  shows "is_rotation (euler_mat ph ps th) \<longleftrightarrow>
           (fst ph)\<^sup>2 + (snd ph)\<^sup>2 = 1 \<and> (fst ps)\<^sup>2 + (snd ps)\<^sup>2 = 1"
proof
  assume "(fst ph)\<^sup>2 + (snd ph)\<^sup>2 = 1 \<and> (fst ps)\<^sup>2 + (snd ps)\<^sup>2 = 1"
  with th show "is_rotation (euler_mat ph ps th)" by (simp add: euler_rotation)
next
  assume r: "is_rotation (euler_mat ph ps th)"
  obtain cph sph where e1: "ph = (cph, sph)" by (cases ph)
  obtain cps sps where e2: "ps = (cps, sps)" by (cases ps)
  obtain cth sth where e3: "th = (cth, sth)" by (cases th)
  define P where "P = cph\<^sup>2 + sph\<^sup>2"
  define S where "S = cps\<^sup>2 + sps\<^sup>2"
  have T: "cth\<^sup>2 + sth\<^sup>2 = 1" using th by (simp add: e3)
  have P1: "P \<le> 1" and S1: "S \<le> 1" using ph ps by (simp_all add: e1 e2 P_def S_def)
  have P0: "0 \<le> P" and S0: "0 \<le> S" by (simp_all add: P_def S_def)
  from r have d:
    "(cps * cph - sps * sph * cth)\<^sup>2 + (sph * cps + sps * cth * cph)\<^sup>2 + (sps * sth)\<^sup>2 = 1"
    "(- 1 * sps * cph - sph * cps * cth)\<^sup>2 + (- 1 * sps * sph + cps * cth * cph)\<^sup>2 + (cps * sth)\<^sup>2 = 1"
    "(sth * sph)\<^sup>2 + (- sth * cph)\<^sup>2 + cth\<^sup>2 = 1"
    by (simp_all add: is_rotation_def euler_mat_def identity3_def e1 e2 e3 power2_eq_square)
  have row3: "sth\<^sup>2 * P + cth\<^sup>2 = 1"
    using d(3) by (simp add: P_def power2_eq_square algebra_simps)
  have "((cps * cph - sps * sph * cth)\<^sup>2 + (sph * cps + sps * cth * cph)\<^sup>2 + (sps * sth)\<^sup>2) +
        ((- 1 * sps * cph - sph * cps * cth)\<^sup>2 + (- 1 * sps * sph + cps * cth * cph)\<^sup>2 + (cps * sth)\<^sup>2)
        = S * (P * (1 + cth\<^sup>2) + sth\<^sup>2)"
    by (simp add: P_def S_def power2_eq_square algebra_simps)
  with d(1,2) have rows12: "S * (P * (1 + cth\<^sup>2) + sth\<^sup>2) = 2" by simp
  have b: "P * (1 + cth\<^sup>2) + sth\<^sup>2 \<le> 2"
  proof -
    have "P * (1 + cth\<^sup>2) \<le> 1 * (1 + cth\<^sup>2)"
      using P1 by (intro mult_right_mono) simp_all
    then show ?thesis using T by simp
  qed
  have b0: "0 \<le> P * (1 + cth\<^sup>2) + sth\<^sup>2" using P0 by simp
  have "S * (P * (1 + cth\<^sup>2) + sth\<^sup>2) \<le> 1 * (P * (1 + cth\<^sup>2) + sth\<^sup>2)"
    using S1 b0 by (intro mult_right_mono) simp_all
  with rows12 b have eq2: "P * (1 + cth\<^sup>2) + sth\<^sup>2 = 2" by simp
  then have "(P - 1) * (1 + cth\<^sup>2) = 0" using T by (simp add: algebra_simps)
  moreover have "1 + cth\<^sup>2 \<noteq> 0"
    by (metis add_nonneg_eq_0_iff zero_le_one zero_le_power2 zero_neq_one)
  ultimately have P: "P = 1" by simp
  from rows12 eq2 have S: "S = 1" by simp
  from P S show "(fst ph)\<^sup>2 + (snd ph)\<^sup>2 = 1 \<and> (fst ps)\<^sup>2 + (snd ps)\<^sup>2 = 1"
    by (simp add: e1 e2 P_def S_def)
qed

lemma rot_real_rotation_iff:
  assumes "vsub c3 c1 \<noteq> (0, 0, 0)" "vadd (vsub c3 c2) (vsub c1 c2) \<noteq> (0, 0, 0)"
  shows "is_rotation (rot_real c1 c2 c3) \<longleftrightarrow>
           sign_kept (1, 0, 0) (nodes_line_of (local_x c1 c3) (local_z c1 c2 c3)) (0, 0, 1) \<and>
           sign_kept (nodes_line_of (local_x c1 c3) (local_z c1 c2 c3)) (local_x c1 c3) (local_z c1 c2 c3)"
proof -
  let ?x = "local_x c1 c3" and ?z = "local_z c1 c2 c3"
  let ?w = "nodes_line_of ?x ?z"
  have x: "vdot ?x ?x = 1" using assms(1) by (rule local_x_unit)
  have z: "vdot ?z ?z = 1" using assms(2) by (rule local_z_unit)
  have w: "vdot ?w ?w = 1" using x by (rule nodes_line_unit)
  have ex: "vdot (1, 0, 0) (1, 0, 0) = 1" and ez: "vdot (0, 0, 1) (0, 0, 1) = 1" by simp_all
  have th: "(fst (trig_real (0, 0, 1) ?z ?w))\<^sup>2 + (snd (trig_real (0, 0, 1) ?z ?w))\<^sup>2 = 1"
    using ez z theta_sign_kept by (rule trig_unit)
  show ?thesis
    unfolding rot_real_def Let_def
    using euler_rotation_iff [OF th trig_le [OF ex w] trig_le [OF w x]]
    by (simp add: trig_unit_iff [OF ex w] trig_unit_iff [OF w x])
qed

lemma vcross_gram:
  "(vdot (vcross w x) z)\<^sup>2 =
     vdot w w * vdot x x * vdot z z + 2 * vdot w x * vdot x z * vdot w z
     - vdot w w * (vdot x z)\<^sup>2 - vdot x x * (vdot w z)\<^sup>2 - vdot z z * (vdot w x)\<^sup>2"
  by (cases w, cases x, cases z) (simp add: power2_eq_square algebra_simps)

lemma sign_kept_orthogonal:
  assumes "vdot w z = 0" "vdot x z = 0" "vdot z z = 1"
  shows "sign_kept w x z"
proof -
  have "(vdot (vcross w x) z)\<^sup>2 = vdot (vcross w x) (vcross w x)"
    using assms by (simp add: vcross_gram vcross_lagrange)
  then have "vdot (vcross w x) z = 0 \<Longrightarrow> vnorm (vcross w x) = 0"
    by (simp add: vnorm_def)
  then show ?thesis by (auto simp add: sign_kept_def vnorm_zero_iff)
qed

lemma unit_of_components:
  assumes "v \<noteq> (0, 0, 0)"
  shows "fst (unit_of v) = fst v / vnorm v"
    "fst (snd (unit_of v)) = fst (snd v) / vnorm v"
    "snd (snd (unit_of v)) = snd (snd v) / vnorm v"
  by (cases v; simp add: unit_of_def)+

lemma phi_sign_kept_nodes:
  assumes "vcross (0, 0, 1) z \<noteq> (0, 0, 0)"
  shows "sign_kept (1, 0, 0) (nodes_line_of x z) (0, 0, 1)"
proof -
  obtain a b c where z: "z = (a, b, c)" by (cases z)
  have "snd (snd (unit_of (vcross (0, 0, 1) z))) = 0"
    using assms by (simp add: unit_of_components z)
  then show ?thesis
    using assms by (cases "unit_of (vcross (0, 0, 1) z)") (auto simp add: nodes_line_of_def sign_kept_def)
qed

lemma vdot_vscale: "vdot (vscale k u) v = k * vdot u v" "vdot u (vscale k v) = k * vdot u v"
  by (cases u; cases v; simp add: algebra_simps)+

lemma vcross_orthogonal: "vdot (vcross a b) b = 0"
  by (cases a, cases b) (simp add: algebra_simps)

lemma nodes_line_orthogonal:
  assumes "vcross (0, 0, 1) z \<noteq> (0, 0, 0)"
  shows "vdot (nodes_line_of x z) z = 0"
proof -
  have "nodes_line_of x z = unit_of (vcross (0, 0, 1) z)"
    using assms by (simp add: nodes_line_of_def)
  then show ?thesis by (simp add: unit_of_def vdot_vscale vcross_orthogonal)
qed

lemma local_axes_orthogonal:
  assumes "vdot (vsub c1 c2) (vsub c1 c2) = vdot (vsub c3 c2) (vsub c3 c2)"
  shows "vdot (local_x c1 c3) (local_z c1 c2 c3) = 0"
proof -
  obtain a1 b1 d1 where c1: "c1 = (a1, b1, d1)" by (cases c1)
  obtain a2 b2 d2 where c2: "c2 = (a2, b2, d2)" by (cases c2)
  obtain a3 b3 d3 where c3: "c3 = (a3, b3, d3)" by (cases c3)
  have "vdot (vsub c3 c1) (vadd (vsub c3 c2) (vsub c1 c2)) =
        vdot (vsub c3 c2) (vsub c3 c2) - vdot (vsub c1 c2) (vsub c1 c2)"
    by (simp add: c1 c2 c3 algebra_simps)
  then have "vdot (vsub c3 c1) (vadd (vsub c3 c2) (vsub c1 c2)) = 0"
    using assms by simp
  then show ?thesis
    by (simp add: local_x_def local_z_def unit_of_def vdot_vscale)
qed

lemma rot_real_tilted_iff:
  assumes "vsub c3 c1 \<noteq> (0, 0, 0)" "vadd (vsub c3 c2) (vsub c1 c2) \<noteq> (0, 0, 0)"
    and "vcross (0, 0, 1) (local_z c1 c2 c3) \<noteq> (0, 0, 0)"
  shows "is_rotation (rot_real c1 c2 c3) \<longleftrightarrow>
           sign_kept (nodes_line_of (local_x c1 c3) (local_z c1 c2 c3)) (local_x c1 c3) (local_z c1 c2 c3)"
  using phi_sign_kept_nodes [OF assms(3)]
  by (simp add: rot_real_rotation_iff [OF assms(1,2)])

lemma rot_real_fallback_iff:
  assumes "vsub c3 c1 \<noteq> (0, 0, 0)" "vadd (vsub c3 c2) (vsub c1 c2) \<noteq> (0, 0, 0)"
    and "vcross (0, 0, 1) (local_z c1 c2 c3) = (0, 0, 0)"
  shows "is_rotation (rot_real c1 c2 c3) \<longleftrightarrow>
           fst (snd (vsub c3 c1)) \<noteq> 0 \<or> snd (snd (vsub c3 c1)) = 0"
proof -
  let ?x = "local_x c1 c3" and ?z = "local_z c1 c2 c3"
  have w: "nodes_line_of ?x ?z = ?x" using assms(3) by (simp add: nodes_line_of_def)
  have n: "vnorm (vsub c3 c1) \<noteq> 0" using assms(1) by (simp add: vnorm_zero_iff)
  have self: "sign_kept ?x ?x ?z" by (cases ?x) (simp add: sign_kept_def)
  have "sign_kept (1, 0, 0) ?x (0, 0, 1) \<longleftrightarrow> fst (snd ?x) \<noteq> 0 \<or> snd (snd ?x) = 0"
    by (cases ?x) (auto simp add: sign_kept_def)
  also have "\<dots> \<longleftrightarrow> fst (snd (vsub c3 c1)) \<noteq> 0 \<or> snd (snd (vsub c3 c1)) = 0"
    using n by (simp add: local_x_def unit_of_components [OF assms(1)])
  finally show ?thesis
    using self by (simp add: rot_real_rotation_iff [OF assms(1,2)] w)
qed

lemma rot_real_equidistant:
  assumes "vsub c3 c1 \<noteq> (0, 0, 0)" "vadd (vsub c3 c2) (vsub c1 c2) \<noteq> (0, 0, 0)"
    and "vdot (vsub c1 c2) (vsub c1 c2) = vdot (vsub c3 c2) (vsub c3 c2)"
  shows "is_rotation (rot_real c1 c2 c3)"
proof (cases "vcross (0, 0, 1) (local_z c1 c2 c3) = (0, 0, 0)")
  case False
  let ?x = "local_x c1 c3" and ?z = "local_z c1 c2 c3"
  have "sign_kept (nodes_line_of ?x ?z) ?x ?z"
    using nodes_line_orthogonal [OF False] local_axes_orthogonal [OF assms(3)]
      local_z_unit [OF assms(2)]
    by (rule sign_kept_orthogonal)
  then show ?thesis by (simp add: rot_real_tilted_iff [OF assms(1,2) False])
next
  case True
  let ?x = "local_x c1 c3" and ?z = "local_z c1 c2 c3"
  obtain a b c where z: "?z = (a, b, c)" by (cases ?z)
  obtain p q r where x: "?x = (p, q, r)" by (cases ?x)
  from True have ab: "a = 0" "b = 0" by (simp_all add: z)
  from local_z_unit [OF assms(2)] have "c \<noteq> 0" by (auto simp add: z ab)
  moreover from local_axes_orthogonal [OF assms(3)] have "r * c = 0" by (simp add: z x ab)
  ultimately have "r = 0" by simp
  then have "snd (snd ?x) = 0" by (simp add: x)
  then have "snd (snd (vsub c3 c1)) = 0"
    using assms(1) by (simp add: local_x_def unit_of_components vnorm_zero_iff)
  then show ?thesis by (simp add: rot_real_fallback_iff [OF assms(1,2) True])
qed

lemma calc_rot_mtx_equidistant:
  assumes "vsub c3 c1 \<noteq> (0, 0, 0)" "vadd (vsub c3 c2) (vsub c1 c2) \<noteq> (0, 0, 0)"
    and "vdot (vsub c1 c2) (vsub c1 c2) = vdot (vsub c3 c2) (vsub c3 c2)"
  shows "calc_rot_mtx c1 c2 c3 = Inr (fin_mat (rot_real c1 c2 c3), vnorm (vsub c3 c1)) \<and>
         is_rotation (rot_real c1 c2 c3)"
  using calc_rot_mtx_fin [OF assms(1,2)] rot_real_equidistant [OF assms] by simp

text \<open>
  C2. The three points \<open>(-3, -5, 0)\<close>, \<open>(0, 0, 0)\<close>, \<open>(3, 3, 0)\<close> are not collinear; the
  span \<open>(6, 8, 0)\<close> and the bisector \<open>(0, -2, 0)\<close> are not zero. Here \<open>z = (0, 1, 0)\<close>,
  the node line is \<open>w = (-1, 0, 0)\<close> and \<open>x = (3/5, 4/5, 0)\<close>. The cross product
  \<open>w \<times> x = (0, 0, -4/5)\<close> is orthogonal to the axis \<open>z\<close>, so \<^verbatim>\<open>np.sign\<close> is \<open>0\<close> and
  \<^verbatim>\<open>_calc_trig_fnc\<close> returns the sine \<open>0\<close> beside the cosine \<open>-3/5\<close>. The matrix has
  determinant \<open>9/25\<close>: it is not a rotation, although the docstring of
  \<^verbatim>\<open>_calc_rot_mtx\<close> promises one. Lemma \<open>rot_real_rotation_iff\<close> above says for
  which valid triplets the matrix is a rotation, and \<open>calc_rot_mtx_equidistant\<close>
  that it is one whenever the outer points are equidistant from the middle one.
\<close>

theorem rot_mtx_planar_not_rotation:
  "calc_rot_mtx (- 3, - 5, 0) (0, 0, 0) (3, 3, 0)
     = Inr (fin_mat ((3 / 5, 0, 0), (0, 0, - 3 / 5), (0, 1, 0)), 10) \<and>
   det3 ((3 / 5, 0, 0), (0, 0, - 3 / 5), (0, 1, 0)) = 9 / 25 \<and>
   \<not> is_rotation ((3 / 5, 0, 0), (0, 0, - 3 / 5), (0, 1, 0))"
  by (simp add: frame_defs real_sqrt_divide is_rotation_def)

text \<open>
  C9. For \<open>(-3, 0, -6)\<close>, \<open>(0, 0, 0)\<close>, \<open>(3, 0, 2)\<close> the local \<open>z\<close> is the world \<open>z\<close>. The
  node line raises \<^verbatim>\<open>FloatingPointError\<close>, which is caught, and \<open>x = (3/5, 0, 4/5)\<close>
  takes its place; no exception leaves the function (\<open>calc_rot_mtx_no_error\<close>) and
  the matrix has no NaN. But it is not a rotation: the cross product of the world
  \<open>x\<close> and the node line is \<open>(0, -4/5, 0)\<close>, orthogonal to the world \<open>z\<close>, so the sine
  of the first angle is \<open>0\<close> beside the cosine \<open>3/5\<close>. This is the defect of C2, met
  on the fallback path; lemma \<open>rot_real_fallback_iff\<close> above gives the triplets of
  that path on which the matrix is a rotation.
\<close>

theorem rot_mtx_fallback_not_rotation:
  "calc_nodes_line (Fin 0, Fin 0, Fin 1) (Fin 0, Fin 0, Fin 1) = Inl FloatingPointError \<and>
   calc_rot_mtx (- 3, 0, - 6) (0, 0, 0) (3, 0, 2)
     = Inr (fin_mat ((3 / 5, 0, 0), (0, 3 / 5, 0), (0, 0, 1)), 10) \<and>
   det3 ((3 / 5, 0, 0), (0, 3 / 5, 0), (0, 0, 1)) = 9 / 25 \<and>
   \<not> is_rotation ((3 / 5, 0, 0), (0, 3 / 5, 0), (0, 0, 1))"
  by (simp add: frame_defs real_sqrt_divide is_rotation_def)

subsection \<open>Rebuilding one chain\<close>

lemma rebuild_step_ok:
  assumes "sc \<longrightarrow> i < length nms \<and> nms ! i \<in> fst ` set SIDECNT"
  shows "rebuild_step nms sc vec i \<noteq> Inl e"
proof -
  have ala: "map_of SIDECNT ''ALA'' \<noteq> None"
    by (simp add: SIDECNT_def)
  have "\<exists>name. nms_at nms sc i = Inr name \<and> map_of SIDECNT name \<noteq> None"
  proof (cases sc)
    case True
    with assms have "i < length nms" "nms ! i \<in> fst ` set SIDECNT" by simp_all
    then show ?thesis using True
      by (simp add: nms_at_def map_of_eq_None_iff)
  next
    case False
    then show ?thesis using ala by (simp add: nms_at_def)
  qed
  then obtain name s where "nms_at nms sc i = Inr name" "map_of SIDECNT name = Some s"
    by auto
  then show ?thesis
    by (auto simp: rebuild_step_def Let_def calc_rot_mtx_no_error split: sum.splits prod.splits)
qed

lemma rebuild_from_ok:
  assumes "\<forall>i\<in>set idx. \<forall>e. rebuild_step nms sc vec i \<noteq> Inl e"
  shows "\<exists>out. rebuild_from nms sc vec idx = Inr out \<and> length out = length idx \<and>
           (\<forall>j<length idx. rebuild_step nms sc vec (idx ! j) = Inr (out ! j))"
  using assms
proof (induction idx)
  case Nil
  then show ?case by simp
next
  case (Cons i idx)
  then have "\<exists>p. rebuild_step nms sc vec i = Inr p"
    by (intro not_Inl_ex) simp
  then obtain p where p: "rebuild_step nms sc vec i = Inr p" ..
  from Cons obtain out where out: "rebuild_from nms sc vec idx = Inr out" "length out = length idx"
    "\<forall>j<length idx. rebuild_step nms sc vec (idx ! j) = Inr (out ! j)" by auto
  have "\<forall>j<length (i # idx). rebuild_step nms sc vec ((i # idx) ! j) = Inr ((p # out) ! j)"
    using p out(3) by (auto simp: nth_Cons split: nat.splits)
  then show ?case using p out(1,2) by simp
qed

lemma pad_ends_ok:
  assumes "3 \<le> length vec"
  shows "\<exists>padded. pad_ends vec = Inr padded \<and> length padded = length vec + 2"
  using assms by (simp add: pad_ends_def Let_def)

lemma rebuild_one_ok:
  assumes "3 \<le> length vec"
    and "sc \<longrightarrow> length vec \<le> length nms \<and> (\<forall>i<length vec. nms ! i \<in> fst ` set SIDECNT)"
  shows "\<exists>padded out. pad_ends vec = Inr padded \<and> rebuild_one nms vec sc = Inr out \<and>
           length out = length vec \<and>
           (\<forall>i<length vec. rebuild_step nms sc padded i = Inr (out ! i))"
proof -
  obtain padded where p: "pad_ends vec = Inr padded" "length padded = length vec + 2"
    using pad_ends_ok [OF assms(1)] by blast
  have "\<forall>i\<in>set [0 ..< length vec]. \<forall>e. rebuild_step nms sc padded i \<noteq> Inl e"
    using assms(2) by (auto intro!: rebuild_step_ok)
  from rebuild_from_ok [OF this] obtain out where
    "rebuild_from nms sc padded [0 ..< length vec] = Inr out" "length out = length vec"
    "\<forall>j<length vec. rebuild_step nms sc padded j = Inr (out ! j)"
    by auto
  then show ?thesis using p by (simp add: rebuild_one_def)
qed

text \<open>
  C3, as the code has it. \<^verbatim>\<open>rebuild_one\<close> reads \<^verbatim>\<open>vec[2]\<close> before anything else, so a
  backbone of one or two points raises \<^verbatim>\<open>IndexError\<close>. From three points on, and
  when side chains are asked for with a mer for each point whose residue name is a
  key of \<^verbatim>\<open>SIDECNT\<close>, it returns one point for each point of the backbone.
\<close>

theorem rebuild_one_length:
  "(length vec < 3 \<longrightarrow> rebuild_one nms vec sc = Inl IndexError) \<and>
   (3 \<le> length vec \<and>
    (sc \<longrightarrow> length vec \<le> length nms \<and> (\<forall>i<length vec. nms ! i \<in> fst ` set SIDECNT))
    \<longrightarrow> (\<exists>out. rebuild_one nms vec sc = Inr out \<and> length out = length vec))"
proof (intro conjI impI)
  assume "length vec < 3"
  then show "rebuild_one nms vec sc = Inl IndexError"
    by (simp add: rebuild_one_def pad_ends_def)
next
  assume "3 \<le> length vec \<and>
    (sc \<longrightarrow> length vec \<le> length nms \<and> (\<forall>i<length vec. nms ! i \<in> fst ` set SIDECNT))"
  then show "\<exists>out. rebuild_one nms vec sc = Inr out \<and> length out = length vec"
    using rebuild_one_ok [of vec sc nms] by blast
qed

theorem rebuild_one_length_witness:
  "rebuild_one [''GLY''] [(0, 0, 0), (3, 2, 0)] True = Inl IndexError \<and>
   (\<exists>out. rebuild_one [''GLY'', ''ALA'', ''SER''] [(0, 0, 0), (3, 2, 0), (6, 0, 1)] True = Inr out \<and>
      length out = 3)"
proof -
  have "\<forall>i<3. [''GLY'', ''ALA'', ''SER''] ! i \<in> fst ` set SIDECNT"
    by (simp add: SIDECNT_def numeral_3_eq_3 less_Suc_eq)
  then have "\<exists>out. rebuild_one [''GLY'', ''ALA'', ''SER''] [(0, 0, 0), (3, 2, 0), (6, 0, 1)] True = Inr out \<and>
      length out = 3"
    using rebuild_one_length [of "[(0, 0, 0), (3, 2, 0), (6, 0, 1)]" "[''GLY'', ''ALA'', ''SER'']" True]
    by (simp add: numeral_3_eq_3)
  moreover have "rebuild_one [''GLY''] [(0, 0, 0), (3, 2, 0)] True = Inl IndexError"
    using rebuild_one_length [of "[(0, 0, 0), (3, 2, 0)]" "[''GLY'']" True] by simp
  ultimately show ?thesis by blast
qed

text \<open>The claim as stated, from one point on, fails on a backbone of one point.\<close>

theorem rebuild_one_short_counterexample:
  "rebuild_one [''ALA''] [(0, 0, 0)] True = Inl IndexError"
  by (simp add: rebuild_one_def pad_ends_def)

subsection \<open>Coincident outer points\<close>

lemma local_system_degenerate:
  "fst (mk_local_system c1 c2 c1) = nan_vec \<and> fst (snd (mk_local_system c1 c2 c1)) = nan_vec \<and>
   snd (snd (snd (mk_local_system c1 c2 c1))) = 0"
proof -
  obtain a b c where c1: "c1 = (a, b, c)" by (cases c1)
  obtain z1 z2 z3 where z: "fvdiv (fin_vec (vscale (- 1) (vadd (vsub c1 c2) (vsub c1 c2))))
       (Fin (vnorm (vadd (vsub c1 c2) (vsub c1 c2)))) = (z1, z2, z3)"
    using prod_cases3 by blast
  show ?thesis
    using z by (simp add: mk_local_system_def Let_def c1 vnorm_def nan_vec_def)
qed

lemma trig_nan_right: "calc_trig_fnc w nan_vec z = (NaN, NaN)"
  by (cases w; cases z) (simp add: calc_trig_fnc_def nan_vec_def np_norm_def Let_def)

lemma rot_of_trig_nan:
  "fst (rot_of_trig ph (NaN, NaN) th) = nan_vec \<and> fst (snd (rot_of_trig ph (NaN, NaN) th)) = nan_vec"
  by (simp add: rot_of_trig_def nan_vec_def Let_def)

lemma calc_rot_mtx_degenerate:
  assumes "calc_rot_mtx c1 c2 c1 = Inr (rot, d)"
  shows "fst rot = nan_vec \<and> fst (snd rot) = nan_vec \<and> d = 0"
proof -
  obtain x y z n where m: "mk_local_system c1 c2 c1 = (x, y, z, n)"
    using prod_cases4 by blast
  with local_system_degenerate [of c1 c2] have x: "x = nan_vec" and n: "n = 0"
    by simp_all
  from assms show ?thesis
    unfolding calc_rot_mtx_def m x n
    by (auto simp: trig_nan_right rot_of_trig_nan split: sum.splits)
qed

lemma fvec_mat_nan:
  assumes "fst m = nan_vec" "fst (snd m) = nan_vec"
  shows "fvadd (fvec_mat a m) b = nan_vec"
proof -
  obtain r3 where "m = (nan_vec, nan_vec, r3)"
    using assms by (cases m) auto
  then show ?thesis
    by (cases a; cases r3; cases b) (simp add: nan_vec_def)
qed

lemma rebuild_step_degenerate:
  assumes "rebuild_step nms sc vec i = Inr p" "vec ! (i + 2) = vec ! i"
  shows "p = nan_vec"
  using assms calc_rot_mtx_degenerate [of "vec ! i" "vec ! (i + 1)"]
  by (auto simp: rebuild_step_def Let_def fvec_mat_nan split: sum.splits option.splits)

text \<open>
  C4, as the code has it. There is no \<^verbatim>\<open>DegenerateGeometryError\<close>, nor any test of the
  span, in the program. With \<open>c3 = c1\<close> the frame builder divides the zero vector by
  its zero norm in numpy's default error state: it returns the span \<open>0\<close> and NaN for
  the local \<open>x\<close> and \<open>y\<close>, and raises nothing. \<^verbatim>\<open>rebuild_one\<close> raises nothing for it
  either: on a backbone of at least three points (with known residue names) it
  returns a point for every residue, and the point of each residue whose two
  neighbours in the padded backbone coincide is three NaN.
\<close>

theorem degenerate_span_gives_nan:
  "fst (mk_local_system c1 c2 c1) = nan_vec \<and> fst (snd (mk_local_system c1 c2 c1)) = nan_vec \<and>
   snd (snd (snd (mk_local_system c1 c2 c1))) = 0 \<and>
   (3 \<le> length vec \<and> (sc \<longrightarrow> length vec \<le> length nms \<and> (\<forall>i<length vec. nms ! i \<in> fst ` set SIDECNT))
     \<longrightarrow> (\<exists>padded out. pad_ends vec = Inr padded \<and> rebuild_one nms vec sc = Inr out \<and>
            length out = length vec \<and>
            (\<forall>i<length vec. padded ! (i + 2) = padded ! i \<longrightarrow> out ! i = nan_vec)))"
proof -
  have "\<exists>padded out. pad_ends vec = Inr padded \<and> rebuild_one nms vec sc = Inr out \<and>
            length out = length vec \<and>
            (\<forall>i<length vec. padded ! (i + 2) = padded ! i \<longrightarrow> out ! i = nan_vec)"
    if a: "3 \<le> length vec \<and>
      (sc \<longrightarrow> length vec \<le> length nms \<and> (\<forall>i<length vec. nms ! i \<in> fst ` set SIDECNT))"
  proof -
    from a obtain padded out where o: "pad_ends vec = Inr padded" "rebuild_one nms vec sc = Inr out"
      "length out = length vec" "\<forall>i<length vec. rebuild_step nms sc padded i = Inr (out ! i)"
      using rebuild_one_ok [of vec sc nms] by blast
    have "\<forall>i<length vec. padded ! (i + 2) = padded ! i \<longrightarrow> out ! i = nan_vec"
      using o(4) rebuild_step_degenerate by blast
    with o show ?thesis by blast
  qed
  then show ?thesis
    using local_system_degenerate [of c1 c2] by blast
qed

theorem degenerate_span_gives_nan_witness:
  "fst (mk_local_system (5, 0, 0) (1, 2, 0) (5, 0, 0)) = nan_vec \<and>
   (\<exists>out. rebuild_one [] [(0, 0, 0), (1, 1, 0), (2, 0, 0), (1, 1, 0)] False = Inr out \<and>
      length out = 4 \<and> out ! 2 = nan_vec)"
proof -
  let ?v = "[(0, 0, 0), (1, 1, 0), (2, 0, 0), (1::real, 1::real, 0::real)]"
  note t = degenerate_span_gives_nan [of "(5, 0, 0)" "(1, 2, 0)" ?v False "[]"]
  from t have a: "fst (mk_local_system (5, 0, 0) (1, 2, 0) (5, 0, 0)) = nan_vec"
    by blast
  from t obtain padded out where o: "pad_ends ?v = Inr padded"
    "rebuild_one [] ?v False = Inr out" "length out = length ?v"
    "\<forall>i<length ?v. padded ! (i + 2) = padded ! i \<longrightarrow> out ! i = nan_vec"
    by auto
  have "pad_ends ?v = Inr [(- 1, 1, 0), (0, 0, 0), (1, 1, 0), (2, 0, 0), (1, 1, 0), (2, 0, 0)]"
    by (simp add: pad_ends_def)
  with o(1) have "padded ! (2 + 2) = padded ! 2" by auto
  with o(4) have "out ! 2 = nan_vec" by simp
  with a o(2,3) show ?thesis by simp
qed

text \<open>The claim as stated fails where the outer points coincide: nothing is raised,
  and the points rebuilt are NaN.\<close>

theorem degenerate_span_counterexample:
  "mk_local_system (0, 0, 0) (1, 0, 0) (0, 0, 0)
     = ((NaN, NaN, NaN), (NaN, NaN, NaN), (Fin 1, Fin 0, Fin 0), 0) \<and>
   rebuild_one [] [(0, 0, 0), (1, 0, 0), (0, 0, 0)] False
     = Inr [(NaN, NaN, NaN), (NaN, NaN, NaN), (NaN, NaN, NaN)]"
  by (simp add: frame_defs rebuild_one_def pad_ends_def rebuild_step_def nms_at_def SIDECNT_def
      upt_rec numeral_nat)


subsection \<open>The root mean square deviation\<close>

lemma broadcast2_same: "length xs = length ys \<Longrightarrow> broadcast2 xs ys = Inr (zip xs ys)"
  by (simp add: broadcast2_def)

lemma sq_list_eq:
  "length query = length target \<Longrightarrow>
   map ((\<lambda>d. vdot d d) \<circ> (\<lambda>(a, b). vsub a b)) (zip query target) =
   map2 (\<lambda>t q. (vnorm (vsub q t))\<^sup>2) target query"
proof (induction query target rule: list_induct2)
  case Nil
  then show ?case by simp
next
  case (Cons q qs t ts)
  then show ?case by (simp add: vnorm_sq)
qed

lemma weighted_sum_nonneg:
  assumes "length w = length a" "\<forall>x\<in>set w. 0 \<le> x" "\<forall>x\<in>set a. (0::real) \<le> x"
  shows "0 \<le> sum_list (map2 (*) w a)"
  using assms
proof (induction w a rule: list_induct2)
  case Nil
  then show ?case by simp
next
  case (Cons x xs y ys)
  then show ?case by simp
qed

lemma weighted_sum_le:
  assumes "length w = length a" "\<forall>x\<in>set w. 0 \<le> x" "\<forall>x\<in>set a. x \<le> (c::real)"
  shows "sum_list (map2 (*) w a) \<le> c * sum_list w"
  using assms
proof (induction w a rule: list_induct2)
  case Nil
  then show ?case by simp
next
  case (Cons x xs y ys)
  then have "x * y \<le> x * c" by (simp add: mult_left_mono)
  moreover from Cons have "sum_list (map2 (*) xs ys) \<le> c * sum_list xs" by simp
  ultimately show ?case by (simp add: algebra_simps)
qed

text \<open>
  C8, as the code has it. The test is \<^verbatim>\<open>_rmsd > _TINY\<close>: the weighted root mean
  square is returned when it is above \<open>0.001\<close>, and \<open>0\<close> is returned when it is
  \<open>0.001\<close> or less. The weights are not negative and their sum is positive.
\<close>

theorem rmsd_threshold:
  assumes "length query = length target" "length w = length target"
    and "\<forall>x\<in>set w. 0 \<le> x" "0 < sum_list w"
  shows "rmsd target (Some query) (Some w) =
           Inr (if weighted_rms target query w > TINY then weighted_rms target query w else 0)"
proof -
  let ?sq = "map2 (\<lambda>t q. (vnorm (vsub q t))\<^sup>2) target query"
  have len: "length ?sq = length w" using assms by simp
  have "\<forall>x\<in>set ?sq. 0 \<le> x" by (auto simp: set_zip)
  then have "0 \<le> sum_list (map2 (*) w ?sq)"
    using weighted_sum_nonneg [of w ?sq] len assms(3) by simp
  then have nn: "\<not> sum_list (map2 (*) w ?sq) / sum_list w < 0"
    using assms(4) by (simp add: field_simps)
  have d: "broadcast2 query target = Inr (zip query target)"
    using assms(1) by (rule broadcast2_same)
  have avg: "np_average ?sq (Some w) = Inr (Some (sum_list (map2 (*) w ?sq) / sum_list w))"
    using len assms(4) by (simp add: np_average_def del: length_map length_zip)
  have "rmsd target (Some query) (Some w) =
          (case np_average ?sq (Some w) of
             Inl e \<Rightarrow> Inl e
           | Inr None \<Rightarrow> Inr 0
           | Inr (Some a) \<Rightarrow>
               if a < 0 then Inr 0 else (let r = sqrt a in Inr (if r > TINY then r else 0)))"
    by (simp add: rmsd_def d sq_list_eq [OF assms(1)])
  also have "\<dots> = Inr (if weighted_rms target query w > TINY then weighted_rms target query w else 0)"
    unfolding avg using nn by (simp add: weighted_rms_def Let_def)
  finally show ?thesis .
qed

theorem rmsd_threshold_witness:
  "weighted_rms [(0, 0, 0), (0, 0, 0)] [(3, 0, 0), (0, 3, 0)] [1, 1] = 3 \<and>
   rmsd [(0, 0, 0), (0, 0, 0)] (Some [(3, 0, 0), (0, 3, 0)]) (Some [1, 1]) = Inr 3"
proof -
  have w: "weighted_rms [(0, 0, 0), (0, 0, 0)] [(3, 0, 0), (0, 3, 0)] [1, 1] = 3"
    by (simp add: weighted_rms_def vnorm_def)
  then show ?thesis
    using rmsd_threshold [of "[(3, 0, 0), (0, 3, 0)]" "[(0, 0, 0), (0, 0, 0)]" "[1, 1]"]
    by (simp add: TINY_def)
qed

text \<open>The claim as stated returns every value of at least \<open>0.001\<close> unchanged; the
  value \<open>0.001\<close> itself is reported as \<open>0\<close>.\<close>

theorem rmsd_boundary_counterexample:
  "weighted_rms [(0, 0, 0)] [(1 / 1000, 0, 0)] [1] = 1 / 1000 \<and>
   rmsd [(0, 0, 0)] (Some [(1 / 1000, 0, 0)]) (Some [1]) = Inr 0"
  by (simp add: weighted_rms_def vnorm_def rmsd_def broadcast2_def np_average_def TINY_def
      real_sqrt_divide power2_eq_square)

lemma rmsd_small:
  assumes "length w = length diff" "\<forall>x\<in>set w. 0 \<le> x" "0 < sum_list w"
    and "\<forall>d\<in>set diff. vdot d d \<le> 1 / 1000000"
  shows "rmsd diff None (Some w) = Inr 0"
proof -
  let ?sq = "map (\<lambda>d. vdot d d) diff"
  have len: "length w = length ?sq" using assms(1) by simp
  have up: "sum_list (map2 (*) w ?sq) \<le> 1 / 1000000 * sum_list w"
    using assms(2,4) by (intro weighted_sum_le [OF len]) auto
  have lo: "0 \<le> sum_list (map2 (*) w ?sq)"
    using assms(2) by (intro weighted_sum_nonneg [OF len]) (auto simp: vdot_self_nonneg)
  let ?a = "sum_list (map2 (*) w ?sq) / sum_list w"
  have a0: "0 \<le> ?a" using lo assms(3) by simp
  have a1: "?a \<le> (1 / 1000)\<^sup>2"
    using up assms(3) by (simp add: field_simps power2_eq_square)
  have "sqrt ?a \<le> 1 / 1000"
    using a1 by (intro real_le_lsqrt) simp_all
  then have "\<not> sqrt ?a > TINY" by (simp add: TINY_def)
  moreover have "\<not> ?a < 0" using a0 by simp
  ultimately show ?thesis
    using assms(1,3) by (simp add: rmsd_def np_average_def Let_def)
qed

subsection \<open>The loop of the iterated alignment\<close>

lemma dk_loop_state:
  "dk_state svd t q k = Some (prev, w) \<Longrightarrow> k + n = 100 \<Longrightarrow>
   dynamic_kabsch svd t q = dk_loop svd t q n prev w"
proof (induction k arbitrary: prev w n)
  case 0
  then show ?case by (simp add: dynamic_kabsch_def)
next
  case (Suc k)
  from Suc.prems(1) obtain p0 w0 where s: "dk_state svd t q k = Some (p0, w0)"
    by (auto split: option.splits)
  from Suc.prems(1) s obtain r tc qc diff where
    b: "dk_body svd t q w0 = Inr (prev, r, tc, qc, diff)" and
    c: "\<not> \<bar>prev - p0\<bar> < TINY" and w: "w = dk_weights prev diff"
    by (auto split: sum.splits if_splits)
  from Suc.prems(2) have "k + Suc n = 100" by simp
  then have "dynamic_kabsch svd t q = dk_loop svd t q (Suc n) p0 w0"
    by (rule Suc.IH [OF s])
  also have "\<dots> = dk_loop svd t q n prev w"
    unfolding dk_loop.simps using b c w by simp
  finally show ?case .
qed

lemma dk_returns:
  assumes "k < 100" "dk_state svd t q k = Some (prev, w)"
    and "dk_body svd t q w = Inr (current, r, t_com, q_com, diff)"
    and "\<bar>current - prev\<bar> < TINY"
  shows "dynamic_kabsch svd t q = Inr (prev, r, t_com, q_com)"
proof -
  from assms(1) obtain n where n: "k + Suc n = 100"
    by (metis add_Suc_right less_iff_Suc_add)
  have "dynamic_kabsch svd t q = dk_loop svd t q (Suc n) prev w"
    by (rule dk_loop_state [OF assms(2) n])
  also have "\<dots> = Inr (prev, r, t_com, q_com)"
    unfolding dk_loop.simps using assms(3,4) by simp
  finally show ?thesis .
qed

lemma dk_state_step:
  assumes "dk_state svd t q k = Some (prev, w)"
    and "dk_body svd t q w = Inr (current, r, t_com, q_com, diff)"
    and "\<not> \<bar>current - prev\<bar> < TINY"
  shows "dk_state svd t q (Suc k) = Some (current, dk_weights current diff)"
  using assms by simp

lemma dk_state_prev:
  assumes "dk_state svd t q k = Some (prev, w)"
  shows "case k of 0 \<Rightarrow> prev = LARGE
         | Suc j \<Rightarrow> \<exists>r' tc' qc' d'. dk_pass svd t q j = Some (prev, r', tc', qc', d')"
proof (cases k)
  case 0
  with assms show ?thesis by simp
next
  case (Suc j)
  with assms obtain p0 w0 where s: "dk_state svd t q j = Some (p0, w0)"
    by (auto split: option.splits)
  from assms Suc s obtain r tc qc diff where "dk_body svd t q w0 = Inr (prev, r, tc, qc, diff)"
    by (auto split: sum.splits if_splits)
  with s have "dk_pass svd t q j = Some (prev, r, tc, qc, diff)"
    by (simp add: dk_pass_def)
  then show ?thesis unfolding Suc nat.case by blast
qed


lemma rotation_of_svd_diag_zero: "rotation_of svd_diag zero3 = identity3"
  by (simp add: rotation_of_def svd_diag_def zero3_def identity3_def)

text \<open>
  C1, as the code has it. The statement \<^verbatim>\<open>return _rmsd, r, t_com, q_com\<close> stands
  before \<^verbatim>\<open>_rmsd = _current\<close>, and after \<^verbatim>\<open>r\<close>, \<^verbatim>\<open>t_com\<close> and \<^verbatim>\<open>q_com\<close> have been
  computed anew. When pass \<open>k\<close> detects convergence, the deviation returned is that
  of pass \<open>k - 1\<close> (the sentinel \<open>1000\<close> when \<open>k\<close> is the first pass), while the
  rotation and the two centroids are those of pass \<open>k\<close> itself.
\<close>

theorem dynamic_kabsch_converged:
  assumes "k < 100" "dk_state svd t q k = Some (prev, w)"
    and "dk_body svd t q w = Inr (current, r, t_com, q_com, diff)"
    and "\<bar>current - prev\<bar> < TINY"
  shows "dynamic_kabsch svd t q = Inr (prev, r, t_com, q_com) \<and>
         dk_pass svd t q k = Some (current, r, t_com, q_com, diff) \<and>
         (case k of 0 \<Rightarrow> prev = LARGE
          | Suc j \<Rightarrow> \<exists>r' tc' qc' d'. dk_pass svd t q j = Some (prev, r', tc', qc', d'))"
proof (intro conjI)
  show "dynamic_kabsch svd t q = Inr (prev, r, t_com, q_com)"
    using assms by (rule dk_returns)
  show "dk_pass svd t q k = Some (current, r, t_com, q_com, diff)"
    using assms(2,3) by (simp add: dk_pass_def)
  show "case k of 0 \<Rightarrow> prev = LARGE
        | Suc j \<Rightarrow> \<exists>r' tc' qc' d'. dk_pass svd t q j = Some (prev, r', tc', qc', d')"
    using assms(2) by (rule dk_state_prev)
qed

lemma body_pair_diag:
  "dk_body svd_diag pair_pts pair_pts [1, 1]
     = Inr (0, identity3, (0, 0, 0), (0, 0, 0), [(0, 0, 0), (0, 0, 0)])"
  by (simp add: dk_body_def np_average_rows_def pair_pts_def kabsch_def covariance_def
      broadcast2_def dot_T_def rotation_of_def svd_diag_def zero3_def identity3_def
      rmsd_def np_average_def TINY_def)

lemma state_pair_diag: "dk_state svd_diag pair_pts pair_pts (Suc 0) = Some (0, [1, 1])"
proof -
  have "dk_state svd_diag pair_pts pair_pts 0 = Some (LARGE, [1, 1])"
    by (simp add: pair_pts_def)
  from dk_state_step [OF this body_pair_diag] show ?thesis
    by (simp add: LARGE_def TINY_def dk_weights_def)
qed

text \<open>Two equal point sets: the first pass finds the deviation \<open>0\<close>, far from the
  sentinel, and the second pass returns.\<close>

theorem dynamic_kabsch_converged_witness:
  "dynamic_kabsch svd_diag pair_pts pair_pts = Inr (0, identity3, (0, 0, 0), (0, 0, 0)) \<and>
   dk_pass svd_diag pair_pts pair_pts 1
     = Some (0, identity3, (0, 0, 0), (0, 0, 0), [(0, 0, 0), (0, 0, 0)])"
  using dynamic_kabsch_converged [where k = "Suc 0", OF _ state_pair_diag body_pair_diag]
  by (simp add: TINY_def)

text \<open>
  The claim as stated takes all four components from the pass before. Here the
  first pass has the target centroid \<open>(1/10000, 0, 0)\<close> and does not converge, the
  second pass converges, and the centroid returned is that of the second pass.
\<close>

lemma body_skew:
  assumes "0 < a" "0 < b"
  defines "m \<equiv> 3 / 10000 * b / (2 * a + b)"
  shows "dk_body svd_diag skew_target origin_query [a, a, b]
    = Inr (0, identity3, (m, 0, 0), (0, 0, 0), [(m, 0, 0), (m, 0, 0), (m - 3 / 10000, 0, 0)])"
proof -
  have s: "a + (a + b) \<noteq> 0" "0 < a + (a + b)" using assms by simp_all
  have m0: "0 \<le> m" unfolding m_def using assms by simp
  have m1: "m \<le> 3 / 10000" unfolding m_def using assms by (simp add: field_simps)
  have tc: "np_average_rows skew_target [a, a, b] = Inr (m, 0, 0)"
    using s by (simp add: np_average_rows_def skew_target_def m_def field_simps)
  have qc: "np_average_rows origin_query [a, a, b] = Inr (0, 0, 0)"
    using s by (simp add: np_average_rows_def origin_query_def)
  have k: "kabsch svd_diag (map (\<lambda>p. vsub p (m, 0, 0)) skew_target)
      (map (\<lambda>p. vsub p (0, 0, 0)) origin_query) (Some [a, a, b]) True = Inr identity3"
    by (simp add: kabsch_def covariance_def broadcast2_def dot_T_def skew_target_def
        origin_query_def rotation_of_svd_diag_zero [unfolded zero3_def] zero3_def)
  have "m * m \<le> 1 / 1000000"
  proof -
    have "m * m \<le> (3 / 10000) * (3 / 10000)"
      using m0 m1 by (intro mult_mono) simp_all
    then show ?thesis by simp
  qed
  moreover have "(m - 3 / 10000) * (m - 3 / 10000) \<le> 1 / 1000000"
  proof -
    have "(3 / 10000 - m) * (3 / 10000 - m) \<le> (3 / 10000) * (3 / 10000)"
      using m0 m1 by (intro mult_mono) simp_all
    then show ?thesis by (simp add: algebra_simps)
  qed
  ultimately have r: "rmsd [(m, 0, 0), (m, 0, 0), (m - 3 / 10000, 0, 0)] None (Some [a, a, b]) = Inr 0"
    using assms(1,2) by (intro rmsd_small) auto
  show ?thesis
    unfolding dk_body_def tc qc
    by (simp add: k Let_def) (simp add: skew_target_def origin_query_def identity3_def r)
qed

lemma body_skew_first: "dk_body svd_diag skew_target origin_query [1, 1, 1]
    = Inr (0, identity3, (1 / 10000, 0, 0), (0, 0, 0),
           [(1 / 10000, 0, 0), (1 / 10000, 0, 0), (- 2 / 10000, 0, 0)])"
  using body_skew [of 1 1] by simp

lemma weights_skew:
  "dk_weights 0 [(1 / 10000, 0, 0), (1 / 10000, 0, 0), (- 2 / 10000, 0, 0)] = [w_near, w_near, w_far]"
  by (simp add: dk_weights_def w_near_def w_far_def)

lemma state_skew: "dk_state svd_diag skew_target origin_query (Suc 0) = Some (0, [w_near, w_near, w_far])"
proof -
  have s0: "dk_state svd_diag skew_target origin_query 0 = Some (LARGE, [1, 1, 1])"
    by (simp add: skew_target_def)
  have "dk_state svd_diag skew_target origin_query (Suc 0)
      = Some (0, dk_weights 0 [(1 / 10000, 0, 0), (1 / 10000, 0, 0), (- 2 / 10000, 0, 0)])"
    by (rule dk_state_step [OF s0 body_skew_first]) (simp add: LARGE_def TINY_def)
  then show ?thesis unfolding weights_skew .
qed

lemma w_pos: "0 < w_near" "0 < w_far" "w_far < w_near"
  by (simp_all add: w_near_def w_far_def)

theorem dynamic_kabsch_centroid_counterexample:
  "dk_pass svd_diag skew_target origin_query 0
     = Some (0, identity3, (1 / 10000, 0, 0), (0, 0, 0),
             [(1 / 10000, 0, 0), (1 / 10000, 0, 0), (- 2 / 10000, 0, 0)]) \<and>
   dk_check svd_diag skew_target origin_query 0 = Some False \<and>
   dk_check svd_diag skew_target origin_query 1 = Some True \<and>
   dynamic_kabsch svd_diag skew_target origin_query
     = Inr (0, identity3, (3 / 10000 * w_far / (2 * w_near + w_far), 0, 0), (0, 0, 0)) \<and>
   3 / 10000 * w_far / (2 * w_near + w_far) \<noteq> 1 / 10000"
proof -
  have r: "replicate (length skew_target) (1::real) = [1, 1, 1]"
    by (simp add: skew_target_def)
  have p0: "dk_pass svd_diag skew_target origin_query 0
     = Some (0, identity3, (1 / 10000, 0, 0), (0, 0, 0),
             [(1 / 10000, 0, 0), (1 / 10000, 0, 0), (- 2 / 10000, 0, 0)])"
    using body_skew_first r by (simp add: dk_pass_def)
  have c0: "dk_check svd_diag skew_target origin_query 0 = Some False"
    using body_skew_first r by (simp add: dk_check_def LARGE_def TINY_def)
  have b1: "dk_body svd_diag skew_target origin_query [w_near, w_near, w_far]
      = Inr (0, identity3, (3 / 10000 * w_far / (2 * w_near + w_far), 0, 0), (0, 0, 0),
          [(3 / 10000 * w_far / (2 * w_near + w_far), 0, 0),
           (3 / 10000 * w_far / (2 * w_near + w_far), 0, 0),
           (3 / 10000 * w_far / (2 * w_near + w_far) - 3 / 10000, 0, 0)])"
    using body_skew [OF w_pos(1,2)] by simp
  have c1: "dk_check svd_diag skew_target origin_query 1 = Some True"
    unfolding dk_check_def One_nat_def state_skew by (simp add: b1 TINY_def)
  have d: "dynamic_kabsch svd_diag skew_target origin_query
     = Inr (0, identity3, (3 / 10000 * w_far / (2 * w_near + w_far), 0, 0), (0, 0, 0))"
    by (rule dk_returns [where k = "Suc 0", OF _ state_skew b1]) (simp_all add: TINY_def)
  have "3 * w_far \<noteq> 2 * w_near + w_far" using w_pos by simp
  then have n: "3 / 10000 * w_far / (2 * w_near + w_far) \<noteq> 1 / 10000"
    using w_pos by (simp add: field_simps)
  from p0 c0 c1 d n show ?thesis by blast
qed

text \<open>
  C10. The sentinel is the finite number \<open>1000\<close>. When the deviation of the first
  pass is within \<open>0.001\<close> of it, the first pass returns: the deviation returned is the
  sentinel, the rotation and the centroids are those of the first pass.
\<close>

theorem dynamic_kabsch_sentinel:
  assumes "dk_body svd target query (replicate (length target) 1) = Inr (current, r, t_com, q_com, diff)"
    and "\<bar>current - 1000\<bar> < 1 / 1000"
  shows "dynamic_kabsch svd target query = Inr (1000, r, t_com, q_com)"
proof -
  have s: "dk_state svd target query 0 = Some (LARGE, replicate (length target) 1)"
    by simp
  have "dynamic_kabsch svd target query = Inr (LARGE, r, t_com, q_com)"
    using assms by (intro dk_returns [OF _ s]) (simp_all add: LARGE_def TINY_def)
  then show ?thesis by (simp add: LARGE_def)
qed

lemma body_far:
  "dk_body svd [(0, 0, 0), (2000, 0, 0)] [(0, 0, 0), (0, 0, 0)] [1, 1]
     = Inr (1000, rotation_of svd zero3, (1000, 0, 0), (0, 0, 0), [(1000, 0, 0), (- 1000, 0, 0)])"
  by (simp add: dk_body_def np_average_rows_def kabsch_def covariance_def broadcast2_def dot_T_def
      zero3_def vec_mat_zero rmsd_def np_average_def TINY_def)

text \<open>Two points \<open>2000\<close> apart against two points at the origin: the deviation of the
  first pass is exactly \<open>1000\<close>, whatever the decomposition routine returns.\<close>

theorem dynamic_kabsch_sentinel_witness:
  "\<forall>svd. dynamic_kabsch svd [(0, 0, 0), (2000, 0, 0)] [(0, 0, 0), (0, 0, 0)]
     = Inr (1000, rotation_of svd zero3, (1000, 0, 0), (0, 0, 0))"
proof
  fix svd :: svd_fn
  have b: "dk_body svd [(0, 0, 0), (2000, 0, 0)] [(0, 0, 0), (0, 0, 0)]
             (replicate (length [(0::real, 0::real, 0::real), (2000, 0, 0)]) 1)
           = Inr (1000, rotation_of svd zero3, (1000, 0, 0), (0, 0, 0), [(1000, 0, 0), (- 1000, 0, 0)])"
    using body_far [of svd] by (simp add: numeral_2_eq_2)
  show "dynamic_kabsch svd [(0, 0, 0), (2000, 0, 0)] [(0, 0, 0), (0, 0, 0)]
     = Inr (1000, rotation_of svd zero3, (1000, 0, 0), (0, 0, 0))"
    by (rule dynamic_kabsch_sentinel [OF b]) simp
qed








subsection \<open>Scaling the weights of the one-shot alignment\<close>












end
